theory Spec2Isabelle
  imports Main "HOL-Library.AList"
begin

section \<open>Data model\<close>

text \<open>
  Modelled from the spec: the values the adapter of \<^verbatim>\<open>pkg/gcr/gcr.go\<close> handles, whose Go
  types are declared in packages gcr.go imports; their content is the data model of the
  specification's section 3. The adapter looks into none of them: it stores four of them
  in its fields and hands them to its collaborators.
  \<^item> \<open>reference\<close> is \<^verbatim>\<open>name.Reference\<close>: a registry repository and the tag under it;
  \<^item> \<open>authenticator\<close> is \<^verbatim>\<open>authn.Authenticator\<close>, an opaque credential; the registry
    credential and the trust credential of the adapter have this one type;
  \<^item> \<open>trust_config\<close> is \<^verbatim>\<open>trust.Config\<close>: server URL, local trust directory and the
    passphrase retriever, a function from a key role to a passphrase (\<open>None\<close> when it
    declines);
  \<^item> \<open>config_ptr\<close> is \<^verbatim>\<open>*trust.Config\<close>, the address of a configuration object. The
    object itself lives outside the adapter, where every function holding the pointer
    can read and write it;
  \<^item> \<open>image\<close> is \<^verbatim>\<open>v1.Image\<close>, seen through its content digest and its size;
  \<^item> \<open>target\<close> is \<^verbatim>\<open>client.Target\<close>: a name bound to a digest and a length.
  An interface or pointer value of Go may be \<^verbatim>\<open>nil\<close>: such a value is an \<open>option\<close>,
  \<open>None\<close> for \<^verbatim>\<open>nil\<close>.
\<close>

record reference =
  ref_repository :: string
  ref_tag :: string

datatype authenticator = Authenticator string

record trust_config =
  server_url :: string
  trust_dir :: string
  passphrase :: "string \<Rightarrow> string option"

datatype config_ptr = ConfigPtr nat

record image =
  img_digest :: string
  img_size :: nat

record target =
  target_name :: string
  target_digest :: string
  target_length :: nat

text \<open>
  Modelled from the spec: the kinds of error, the taxonomy of the specification's section
  7. The adapter declares no error of its own; a Go \<^verbatim>\<open>error\<close> value of a collaborator is
  a kind with the error's message.
\<close>

datatype err_kind =
    ConfigError
  | RegistryPushError
  | RegistryPullError
  | TrustUnavailable
  | NoTrustData
  | NotTrusted
  | TrustPublishError
  | SigningError

datatype error = Err err_kind string

fun kind_of :: "error \<Rightarrow> err_kind" where
  "kind_of (Err k m) = k"

text \<open>
  The struct \<^verbatim>\<open>TrustedGcrRepository\<close> (gcr.go, lines 12 to 17). Its field \<^verbatim>\<open>config\<close> is
  a pointer: the adapter holds the address of the configuration, not the configuration.
\<close>

record TrustedGcrRepository =
  ref :: "reference option"
  registryAuth :: "authenticator option"
  notaryAuth :: "authenticator option"
  config :: "config_ptr option"

text \<open>The composite literal \<^verbatim>\<open>TrustedGcrRepository{}\<close>: every field is \<^verbatim>\<open>nil\<close>.\<close>

definition zero_repository :: TrustedGcrRepository where
  "zero_repository = \<lparr>ref = None, registryAuth = None, notaryAuth = None, config = None\<rparr>"

section \<open>Effects: collaborators, calls and log lines\<close>

text \<open>
  What the adapter does besides returning values is calling a collaborator and writing
  a log line with \<^verbatim>\<open>log.Errorf\<close>. Both are recorded, in order, in a trace: a call
  with the arguments it receives, a log line with its format string and the error
  formatted into it.
\<close>

datatype event =
    Call_ParseConfig string
  | Call_pushImage "reference option" "image option" "authenticator option"
  | Call_pushTrustedReference "reference option" "image option" "authenticator option"
      "config_ptr option"
  | Call_listTargets "reference option" "authenticator option" "config_ptr option"
  | Call_getTrustedTarget "reference option" "authenticator option" "config_ptr option"
  | Call_signImage "reference option" "image option" "authenticator option"
      "config_ptr option"
  | Call_revokeImage "reference option" string "authenticator option" "config_ptr option"
  | Log_Errorf string error

text \<open>
  The state threaded through every operation: the state \<open>world\<close> of the external systems
  (registry, trust service, file system), of a type \<open>'w\<close> the adapter knows nothing about,
  and the trace.
\<close>

record 'w state =
  world :: 'w
  trace :: "event list"

definition emit :: "event \<Rightarrow> 'w state \<Rightarrow> 'w state" where
  "emit ev s = s\<lparr>trace := trace s @ [ev]\<rparr>"

text \<open>
  The functions gcr.go calls and does not define: \<^verbatim>\<open>trust.ParseConfig\<close> and the package's
  helpers \<^verbatim>\<open>pushImage\<close>, \<^verbatim>\<open>pushTrustedReference\<close>, \<^verbatim>\<open>listTargets\<close>,
  \<^verbatim>\<open>getTrustedTarget\<close>, \<^verbatim>\<open>signImage\<close> and \<^verbatim>\<open>revokeImage\<close>. The adapter is
  modelled over any behaviour of them: each takes its Go arguments and the state of the
  world, and returns its Go results and the new state of the world. A Go function
  returning \<^verbatim>\<open>(x, error)\<close> returns a pair, both components possibly \<^verbatim>\<open>nil\<close>.
\<close>

record 'w collaborators =
  ParseConfig :: "string \<Rightarrow> 'w \<Rightarrow> (config_ptr option \<times> error option) \<times> 'w"
  pushImage :: "reference option \<Rightarrow> image option \<Rightarrow> authenticator option \<Rightarrow> 'w
    \<Rightarrow> error option \<times> 'w"
  pushTrustedReference :: "reference option \<Rightarrow> image option \<Rightarrow> authenticator option
    \<Rightarrow> config_ptr option \<Rightarrow> 'w \<Rightarrow> error option \<times> 'w"
  listTargets :: "reference option \<Rightarrow> authenticator option \<Rightarrow> config_ptr option \<Rightarrow> 'w
    \<Rightarrow> (target list option \<times> error option) \<times> 'w"
  getTrustedTarget :: "reference option \<Rightarrow> authenticator option \<Rightarrow> config_ptr option \<Rightarrow> 'w
    \<Rightarrow> (target option \<times> error option) \<times> 'w"
  signImage :: "reference option \<Rightarrow> image option \<Rightarrow> authenticator option
    \<Rightarrow> config_ptr option \<Rightarrow> 'w \<Rightarrow> error option \<times> 'w"
  revokeImage :: "reference option \<Rightarrow> string \<Rightarrow> authenticator option
    \<Rightarrow> config_ptr option \<Rightarrow> 'w \<Rightarrow> error option \<times> 'w"

section \<open>The adapter\<close>

text \<open>
  Each operation of gcr.go, statement by statement. A method has the pointer receiver
  \<^verbatim>\<open>repo *TrustedGcrRepository\<close>: it takes the adapter and returns it, next to its Go
  results and the new state.
\<close>

definition NewTrustedGcrRepository ::
  "'w collaborators \<Rightarrow> string \<Rightarrow> reference option \<Rightarrow> authenticator option
    \<Rightarrow> authenticator option \<Rightarrow> 'w state
    \<Rightarrow> (TrustedGcrRepository \<times> error option) \<times> 'w state" where
  "NewTrustedGcrRepository env configDir r rAuth nAuth s =
     (case ParseConfig env configDir (world s) of
        ((cfg, err), w) \<Rightarrow>
          (let s1 = (emit (Call_ParseConfig configDir) s)\<lparr>world := w\<rparr> in
           case err of
             Some e \<Rightarrow>
               ((zero_repository, Some e), emit (Log_Errorf ''failed to parse config: %s'' e) s1)
           | None \<Rightarrow>
               ((\<lparr>ref = r, registryAuth = rAuth, notaryAuth = nAuth, config = cfg\<rparr>, None),
                s1)))"

definition ListTarget ::
  "'w collaborators \<Rightarrow> TrustedGcrRepository \<Rightarrow> 'w state
    \<Rightarrow> (target list option \<times> error option) \<times> TrustedGcrRepository \<times> 'w state" where
  "ListTarget env repo s =
     (case listTargets env (ref repo) (notaryAuth repo) (config repo) (world s) of
        ((targets, err), w) \<Rightarrow>
          (let s1 = (emit (Call_listTargets (ref repo) (notaryAuth repo) (config repo)) s)
                      \<lparr>world := w\<rparr> in
           case err of
             Some e \<Rightarrow>
               ((None, Some e), repo, emit (Log_Errorf ''failed to list targets: %s'' e) s1)
           | None \<Rightarrow> ((targets, None), repo, s1)))"

definition TrustPush ::
  "'w collaborators \<Rightarrow> TrustedGcrRepository \<Rightarrow> image option \<Rightarrow> 'w state
    \<Rightarrow> error option \<times> TrustedGcrRepository \<times> 'w state" where
  "TrustPush env repo img s =
     (case pushImage env (ref repo) img (registryAuth repo) (world s) of
        (err, w) \<Rightarrow>
          (let s1 = (emit (Call_pushImage (ref repo) img (registryAuth repo)) s)
                      \<lparr>world := w\<rparr> in
           case err of
             Some e \<Rightarrow> (Some e, repo, emit (Log_Errorf ''failed to push image: %s'' e) s1)
           | None \<Rightarrow>
               (case pushTrustedReference env (ref repo) img (notaryAuth repo) (config repo) w of
                  (err2, w2) \<Rightarrow>
                    (err2, repo,
                     (emit (Call_pushTrustedReference (ref repo) img (notaryAuth repo)
                              (config repo)) s1)\<lparr>world := w2\<rparr>))))"

definition Verify ::
  "'w collaborators \<Rightarrow> TrustedGcrRepository \<Rightarrow> 'w state
    \<Rightarrow> (target option \<times> error option) \<times> TrustedGcrRepository \<times> 'w state" where
  "Verify env repo s =
     (case getTrustedTarget env (ref repo) (notaryAuth repo) (config repo) (world s) of
        ((tgt, err), w) \<Rightarrow>
          (let s1 = (emit (Call_getTrustedTarget (ref repo) (notaryAuth repo) (config repo)) s)
                      \<lparr>world := w\<rparr> in
           case err of
             Some e \<Rightarrow>
               ((None, Some e), repo, emit (Log_Errorf ''failed to verify repository: %s'' e) s1)
           | None \<Rightarrow> ((tgt, None), repo, s1)))"

definition SignImage ::
  "'w collaborators \<Rightarrow> TrustedGcrRepository \<Rightarrow> image option \<Rightarrow> 'w state
    \<Rightarrow> error option \<times> TrustedGcrRepository \<times> 'w state" where
  "SignImage env repo img s =
     (case signImage env (ref repo) img (notaryAuth repo) (config repo) (world s) of
        (err, w) \<Rightarrow>
          (let s1 = (emit (Call_signImage (ref repo) img (notaryAuth repo) (config repo)) s)
                      \<lparr>world := w\<rparr> in
           case err of
             Some e \<Rightarrow> (Some e, repo, emit (Log_Errorf ''failed to sign image: %s'' e) s1)
           | None \<Rightarrow> (None, repo, s1)))"

definition RevokeTag ::
  "'w collaborators \<Rightarrow> TrustedGcrRepository \<Rightarrow> string \<Rightarrow> 'w state
    \<Rightarrow> error option \<times> TrustedGcrRepository \<times> 'w state" where
  "RevokeTag env repo tag s =
     (case revokeImage env (ref repo) tag (notaryAuth repo) (config repo) (world s) of
        (err, w) \<Rightarrow>
          (let s1 = (emit (Call_revokeImage (ref repo) tag (notaryAuth repo) (config repo)) s)
                      \<lparr>world := w\<rparr> in
           case err of
             Some e \<Rightarrow>
               (Some e, repo, emit (Log_Errorf ''failed to revoke trusted repository: %s'' e) s1)
           | None \<Rightarrow> (None, repo, s1)))"

section \<open>The collaborators, from the specification\<close>

text \<open>
  Modelled from the spec: the state of the external systems the collaborators act on.
  The registry, the trust service and the configuration loader are not part of gcr.go;
  the state holds what the specification's sections 4.1, 6 and 7 make their results
  depend on:
  \<^item> \<open>config_dirs\<close>: the configuration directories that are present, well formed and
    readable, with the configuration each holds;
  \<^item> \<open>configs\<close>: the configuration objects loaded so far, the object at the address
    \<open>ConfigPtr n\<close> being the \<open>n\<close>-th of them;
  \<^item> \<open>registry_up\<close>, \<open>registry_accepts\<close>: whether the registry can be reached, and the
    credentials it accepts (a registry transport or authentication failure otherwise);
  \<^item> \<open>registry_images\<close>: the image stored under each reference;
  \<^item> \<open>trust_up\<close>, \<open>trust_accepts\<close>: the same for the trust service;
  \<^item> \<open>signing_key_usable\<close>: whether the key store holds a usable targets-role key;
  \<^item> \<open>trust_data\<close>: for each repository with published trust metadata, the targets
    signed under its targets role, by tag. A repository that is no key of it never had
    trust metadata published.
\<close>

record world =
  config_dirs :: "string \<Rightarrow> trust_config option"
  configs :: "trust_config list"
  registry_up :: bool
  registry_accepts :: "authenticator \<Rightarrow> bool"
  registry_images :: "(reference \<times> image) list"
  trust_up :: bool
  trust_accepts :: "authenticator \<Rightarrow> bool"
  signing_key_usable :: bool
  trust_data :: "(string \<times> (string \<times> target) list) list"

text \<open>
  Modelled from the spec: \<^verbatim>\<open>trust.ParseConfig\<close>, "ParseConfig(directory) ->
  (TrustConfig, error)", which "fails with ConfigError if the directory is missing,
  malformed, or unreadable". gcr.go receives a \<^verbatim>\<open>*trust.Config\<close> from it: the loaded
  configuration is a new object, and the result is its address.
\<close>

definition spec_ParseConfig ::
  "string \<Rightarrow> world \<Rightarrow> (config_ptr option \<times> error option) \<times> world" where
  "spec_ParseConfig dir w =
     (case config_dirs w dir of
        None \<Rightarrow> ((None, Some (Err ConfigError dir)), w)
      | Some c \<Rightarrow>
          ((Some (ConfigPtr (length (configs w))), None), w\<lparr>configs := configs w @ [c]\<rparr>))"

text \<open>
  Modelled from the spec: the configuration a pointer refers to, \<open>None\<close> for \<^verbatim>\<open>nil\<close> and
  for an address that holds no configuration.
\<close>

definition config_at :: "world \<Rightarrow> config_ptr option \<Rightarrow> trust_config option" where
  "config_at w p =
     (case p of
        None \<Rightarrow> None
      | Some (ConfigPtr n) \<Rightarrow> if n < length (configs w) then Some (configs w ! n) else None)"

text \<open>
  Modelled from the spec: when \<^verbatim>\<open>pushImage\<close> has a session with the registry, the
  absence of which is the "registry transport/auth failure" of section 7: the registry is
  reached, and accepts the credential. A \<^verbatim>\<open>nil\<close> credential opens no session.
\<close>

definition registry_session :: "world \<Rightarrow> authenticator option \<Rightarrow> bool" where
  "registry_session w a =
     (registry_up w \<and> (case a of None \<Rightarrow> False | Some x \<Rightarrow> registry_accepts w x))"

text \<open>
  Modelled from the spec: when a trust collaborator has a session with the trust service,
  the absence of which is the "trust-service transport failure" of section 7: the service
  is reached at the server of the configuration, and accepts the credential. A \<^verbatim>\<open>nil\<close>
  credential, a \<^verbatim>\<open>nil\<close> pointer or a pointer to no configuration opens no session.
\<close>

definition trust_session :: "world \<Rightarrow> authenticator option \<Rightarrow> config_ptr option \<Rightarrow> bool" where
  "trust_session w a cfg =
     (trust_up w \<and> (case a of None \<Rightarrow> False | Some x \<Rightarrow> trust_accepts w x)
      \<and> config_at w cfg \<noteq> None)"

text \<open>
  Modelled from the spec: signing fails "if no usable signing key is available or the
  passphrase retriever declines/fails"; the key is the one of the targets role.
\<close>

definition can_sign :: "world \<Rightarrow> config_ptr option \<Rightarrow> bool" where
  "can_sign w cfg =
     (signing_key_usable w \<and>
      (case config_at w cfg of None \<Rightarrow> False | Some c \<Rightarrow> passphrase c ''targets'' \<noteq> None))"

text \<open>
  Modelled from the spec: the Target of an image under a reference, "a signed record
  mapping a tag to a content digest and size".
\<close>

definition target_of :: "reference \<Rightarrow> image \<Rightarrow> target" where
  "target_of r i =
     \<lparr>target_name = ref_tag r, target_digest = img_digest i, target_length = img_size i\<rparr>"

text \<open>
  Modelled from the spec: the trust metadata published for the repository of a reference,
  \<open>None\<close> when none was ever published (or the reference is \<^verbatim>\<open>nil\<close>).
\<close>

definition repo_targets :: "world \<Rightarrow> reference option \<Rightarrow> (string \<times> target) list option" where
  "repo_targets w r =
     (case r of None \<Rightarrow> None | Some r' \<Rightarrow> map_of (trust_data w) (ref_repository r'))"

text \<open>
  Modelled from the spec: "adds/updates a Target entry" for the tag of a reference in the
  trust metadata of its repository, creating the metadata when there is none.
\<close>

definition put_target :: "reference \<Rightarrow> target \<Rightarrow> world \<Rightarrow> world" where
  "put_target r t w =
     w\<lparr>trust_data :=
         AList.update (ref_repository r)
           (AList.update (ref_tag r) t
              (case map_of (trust_data w) (ref_repository r) of None \<Rightarrow> [] | Some m \<Rightarrow> m))
           (trust_data w)\<rparr>"

text \<open>
  Modelled from the spec: the registry collaborator \<^verbatim>\<open>pushImage\<close>, "push(reference,
  image, authenticator) -> error": phase (a) of Push, "upload the image to the registry
  under the adapter's Reference, using the registry authenticator", failing with
  RegistryPushError on a registry transport or authentication failure. A \<^verbatim>\<open>nil\<close>
  reference or image cannot be uploaded.
\<close>

definition spec_pushImage ::
  "reference option \<Rightarrow> image option \<Rightarrow> authenticator option \<Rightarrow> world \<Rightarrow> error option \<times> world"
  where
  "spec_pushImage r img a w =
     (case (r, img) of
        (Some r', Some i) \<Rightarrow>
          if registry_session w a
          then (None, w\<lparr>registry_images := AList.update r' i (registry_images w)\<rparr>)
          else (Some (Err RegistryPushError ''registry transport or authentication failure''), w)
      | _ \<Rightarrow> (Some (Err RegistryPushError ''nothing to push''), w))"

text \<open>
  Modelled from the spec: the trust collaborator \<^verbatim>\<open>pushTrustedReference\<close>,
  "publish(reference, target, authenticator, config) -> error": phase (b) of Push,
  "compute the image's content digest and size, and publish/sign a new Target entry under
  the trust service, using the trust authenticator", every failure of it being a
  TrustPublishError. Publishing creates the repository's trust metadata when there is
  none.
\<close>

definition spec_pushTrustedReference ::
  "reference option \<Rightarrow> image option \<Rightarrow> authenticator option \<Rightarrow> config_ptr option \<Rightarrow> world
    \<Rightarrow> error option \<times> world" where
  "spec_pushTrustedReference r img a cfg w =
     (case (r, img) of
        (Some r', Some i) \<Rightarrow>
          if trust_session w a cfg \<and> can_sign w cfg
          then (None, put_target r' (target_of r' i) w)
          else (Some (Err TrustPublishError ''trust data not published''), w)
      | _ \<Rightarrow> (Some (Err TrustPublishError ''nothing to publish''), w))"

text \<open>
  Modelled from the spec: the trust collaborator \<^verbatim>\<open>listTargets\<close>, "listTargets(reference,
  authenticator, config) -> ([]Target, error)": "all targets currently signed under the
  repository's targets role", "an empty sequence (not an error) if the role exists but has
  no targets", "TrustUnavailable if the trust service cannot be reached, and NoTrustData if
  no trust metadata has ever been published for this repository".
\<close>

definition spec_listTargets ::
  "reference option \<Rightarrow> authenticator option \<Rightarrow> config_ptr option \<Rightarrow> world
    \<Rightarrow> (target list option \<times> error option) \<times> world" where
  "spec_listTargets r a cfg w =
     (if \<not> trust_session w a cfg
      then ((None, Some (Err TrustUnavailable ''trust service not reached'')), w)
      else case repo_targets w r of
             None \<Rightarrow> ((None, Some (Err NoTrustData ''no trust data'')), w)
           | Some m \<Rightarrow> ((Some (map snd m), None), w))"

text \<open>
  Modelled from the spec: the trust collaborator \<^verbatim>\<open>getTrustedTarget\<close>,
  "getTrustedTarget(reference, authenticator, config) -> (Target, error)": "the Target
  currently bound to the adapter's reference tag", "NotTrusted if no valid signed target
  matches the reference's tag, and TrustUnavailable on transport failure". The trust
  metadata holds validly signed targets only.
\<close>

definition spec_getTrustedTarget ::
  "reference option \<Rightarrow> authenticator option \<Rightarrow> config_ptr option \<Rightarrow> world
    \<Rightarrow> (target option \<times> error option) \<times> world" where
  "spec_getTrustedTarget r a cfg w =
     (if \<not> trust_session w a cfg
      then ((None, Some (Err TrustUnavailable ''trust service not reached'')), w)
      else case r of
             None \<Rightarrow> ((None, Some (Err NotTrusted ''no trusted target'')), w)
           | Some r' \<Rightarrow>
               (case repo_targets w r of
                  None \<Rightarrow> ((None, Some (Err NotTrusted ''no trusted target'')), w)
                | Some m \<Rightarrow>
                    (case map_of m (ref_tag r') of
                       None \<Rightarrow> ((None, Some (Err NotTrusted ''no trusted target'')), w)
                     | Some t \<Rightarrow> ((Some t, None), w))))"

text \<open>
  Modelled from the spec: the trust collaborator \<^verbatim>\<open>signImage\<close>, "sign(reference, image,
  authenticator, config) -> error": "computes the image's digest/size and adds/updates a
  Target entry for the adapter's reference tag in the trust metadata", failing with
  SigningError when signing fails, and with TrustUnavailable, the taxonomy's trust-service
  transport failure, when the service is not reached.
\<close>

definition spec_signImage ::
  "reference option \<Rightarrow> image option \<Rightarrow> authenticator option \<Rightarrow> config_ptr option \<Rightarrow> world
    \<Rightarrow> error option \<times> world" where
  "spec_signImage r img a cfg w =
     (if \<not> trust_session w a cfg
      then (Some (Err TrustUnavailable ''trust service not reached''), w)
      else case (r, img) of
             (Some r', Some i) \<Rightarrow>
               if can_sign w cfg then (None, put_target r' (target_of r' i) w)
               else (Some (Err SigningError ''no usable signing key''), w)
           | _ \<Rightarrow> (Some (Err SigningError ''nothing to sign''), w))"

text \<open>
  Modelled from the spec: the trust collaborator \<^verbatim>\<open>revokeImage\<close>, "revoke(reference, tag,
  authenticator, config) -> error": "removes the Target entry for tag from trust metadata
  and re-signs the remaining target set", "NotTrusted if no target existed for that tag,
  SigningError if re-signing fails", and TrustUnavailable, the taxonomy's trust-service
  transport failure, when the service is not reached.
\<close>

definition spec_revokeImage ::
  "reference option \<Rightarrow> string \<Rightarrow> authenticator option \<Rightarrow> config_ptr option \<Rightarrow> world
    \<Rightarrow> error option \<times> world" where
  "spec_revokeImage r tag a cfg w =
     (if \<not> trust_session w a cfg
      then (Some (Err TrustUnavailable ''trust service not reached''), w)
      else case r of
             None \<Rightarrow> (Some (Err NotTrusted ''no trusted target''), w)
           | Some r' \<Rightarrow>
               (case repo_targets w r of
                  None \<Rightarrow> (Some (Err NotTrusted ''no trusted target''), w)
                | Some m \<Rightarrow>
                    (case map_of m tag of
                       None \<Rightarrow> (Some (Err NotTrusted ''no trusted target''), w)
                     | Some t \<Rightarrow>
                         if can_sign w cfg
                         then (None,
                               w\<lparr>trust_data :=
                                   AList.update (ref_repository r') (AList.delete tag m)
                                     (trust_data w)\<rparr>)
                         else (Some (Err SigningError ''no usable signing key''), w))))"

text \<open>Modelled from the spec: the seven collaborators together.\<close>

definition spec_env :: "world collaborators" where
  "spec_env =
     \<lparr>ParseConfig = spec_ParseConfig,
      pushImage = spec_pushImage,
      pushTrustedReference = spec_pushTrustedReference,
      listTargets = spec_listTargets,
      getTrustedTarget = spec_getTrustedTarget,
      signImage = spec_signImage,
      revokeImage = spec_revokeImage\<rparr>"

section \<open>Reading a trace\<close>

text \<open>
  The events an operation adds to the trace, and their kinds: a call to the registry
  collaborator, a call to the trust-service collaborator, a log line.
\<close>

definition events_since :: "'w state \<Rightarrow> 'w state \<Rightarrow> event list" where
  "events_since s s' = drop (length (trace s)) (trace s')"

fun is_registry_call :: "event \<Rightarrow> bool" where
  "is_registry_call (Call_pushImage r i a) = True"
| "is_registry_call ev = False"

fun is_trust_call :: "event \<Rightarrow> bool" where
  "is_trust_call (Call_pushTrustedReference r i a c) = True"
| "is_trust_call (Call_listTargets r a c) = True"
| "is_trust_call (Call_getTrustedTarget r a c) = True"
| "is_trust_call (Call_signImage r i a c) = True"
| "is_trust_call (Call_revokeImage r t a c) = True"
| "is_trust_call ev = False"

fun is_log :: "event \<Rightarrow> bool" where
  "is_log (Log_Errorf f e) = True"
| "is_log ev = False"

text \<open>
  The authenticator a call hands to its collaborator, and the routing of the adapter's two
  credentials over a list of events: a registry call carries the field \<^verbatim>\<open>registryAuth\<close>,
  a trust-service call the field \<^verbatim>\<open>notaryAuth\<close>.
\<close>

fun auth_passed :: "event \<Rightarrow> authenticator option option" where
  "auth_passed (Call_pushImage r i a) = Some a"
| "auth_passed (Call_pushTrustedReference r i a c) = Some a"
| "auth_passed (Call_listTargets r a c) = Some a"
| "auth_passed (Call_getTrustedTarget r a c) = Some a"
| "auth_passed (Call_signImage r i a c) = Some a"
| "auth_passed (Call_revokeImage r t a c) = Some a"
| "auth_passed ev = None"

definition routes_credentials :: "TrustedGcrRepository \<Rightarrow> event list \<Rightarrow> bool" where
  "routes_credentials repo evs =
     list_all (\<lambda>ev. (is_registry_call ev \<longrightarrow> auth_passed ev = Some (registryAuth repo))
                 \<and> (is_trust_call ev \<longrightarrow> auth_passed ev = Some (notaryAuth repo))) evs"

text \<open>
  What a caller and the external systems see of an operation: its Go results, the state of
  the world it leaves and the events it adds.
\<close>

definition outcome :: "'w state \<Rightarrow> 'a \<times> 'r \<times> 'w state \<Rightarrow> 'a \<times> 'w \<times> event list" where
  "outcome s x = (fst x, world (snd (snd x)), events_since s (snd (snd x)))"

section \<open>Example values\<close>

text \<open>
  The scenario of the specification's section 8: an image of digest \<^verbatim>\<open>sha256:aaa\<close> and
  size 1024 under the tag \<^verbatim>\<open>v1\<close>, an adapter with two different credentials, the
  constant passphrase retriever of the test file, and a world in which both services are
  reached, nothing is stored yet, the configuration directory is \<^verbatim>\<open>/etc/notary\<close> and its
  configuration is loaded at the address the adapter holds. In the unconfigured world it
  is not loaded yet.
\<close>

definition demo_config :: trust_config where
  "demo_config = \<lparr>server_url = ''https://notary.example'', trust_dir = ''/var/trust'',
     passphrase = (\<lambda>role. Some ''passphrase'')\<rparr>"

definition demo_ref :: reference where
  "demo_ref = \<lparr>ref_repository = ''gcr.io/project/app'', ref_tag = ''v1''\<rparr>"

definition demo_image :: image where
  "demo_image = \<lparr>img_digest = ''sha256:aaa'', img_size = 1024\<rparr>"

definition demo_repo :: TrustedGcrRepository where
  "demo_repo = \<lparr>ref = Some demo_ref, registryAuth = Some (Authenticator ''registry''),
     notaryAuth = Some (Authenticator ''notary''), config = Some (ConfigPtr 0)\<rparr>"

definition fresh_world :: world where
  "fresh_world = \<lparr>config_dirs = (\<lambda>d. if d = ''/etc/notary'' then Some demo_config else None),
     configs = [demo_config], registry_up = True, registry_accepts = (\<lambda>a. a = Authenticator ''registry''),
     registry_images = [], trust_up = True,
     trust_accepts = (\<lambda>a. a = Authenticator ''notary''),
     signing_key_usable = True, trust_data = []\<rparr>"

definition unconfigured_world :: world where
  "unconfigured_world = fresh_world\<lparr>configs := []\<rparr>"

definition registry_down :: world where
  "registry_down = fresh_world\<lparr>registry_up := False\<rparr>"

definition start :: "'w \<Rightarrow> 'w state" where
  "start w = \<lparr>world = w, trace = []\<rparr>"

text \<open>
  Further worlds: the trust service not reached; nothing reached and no configuration
  directory; the image of the scenario pushed and signed. And the adapter of the scenario
  with its two credentials interchanged: the trust credential in the field
  \<^verbatim>\<open>registryAuth\<close>, the registry credential in the field \<^verbatim>\<open>notaryAuth\<close>.
\<close>

definition trust_down :: world where
  "trust_down = fresh_world\<lparr>trust_up := False\<rparr>"

definition all_down :: world where
  "all_down = fresh_world\<lparr>config_dirs := (\<lambda>d. None), registry_up := False, trust_up := False\<rparr>"

definition signed_world :: world where
  "signed_world = fresh_world\<lparr>registry_images := [(demo_ref, demo_image)],
     trust_data := [(''gcr.io/project/app'',
       [(''v1'', \<lparr>target_name = ''v1'', target_digest = ''sha256:aaa'', target_length = 1024\<rparr>)])]\<rparr>"


text \<open>
  A collaborator may write the configuration object it is handed the address of. An
  example of one: the collaborators of the specification, except that \<^verbatim>\<open>getTrustedTarget\<close>
  first makes the passphrase retriever of every loaded configuration decline.
\<close>

definition meddling_env :: "world collaborators" where
  "meddling_env = spec_env\<lparr>getTrustedTarget :=
     (\<lambda>r a cfg w. spec_getTrustedTarget r a cfg
        (w\<lparr>configs := map (\<lambda>c. c\<lparr>passphrase := (\<lambda>role. None)\<rparr>) (configs w)\<rparr>))\<rparr>"

section \<open>What each operation does, by outcome of its collaborator\<close>

lemmas op_defs = NewTrustedGcrRepository_def ListTarget_def TrustPush_def Verify_def
  SignImage_def RevokeTag_def emit_def Let_def

lemmas world_defs = registry_down_def trust_down_def all_down_def unconfigured_world_def

lemmas demo_defs = demo_config_def demo_ref_def demo_image_def demo_repo_def fresh_world_def start_def
lemmas spec_defs = spec_env_def spec_ParseConfig_def spec_pushImage_def spec_pushTrustedReference_def
  spec_listTargets_def spec_getTrustedTarget_def spec_signImage_def spec_revokeImage_def
  registry_session_def trust_session_def can_sign_def config_at_def target_of_def
  repo_targets_def put_target_def

lemma events_since_append [simp]: "trace s' = trace s @ evs \<Longrightarrow> events_since s s' = evs"
  by (simp add: events_since_def)

lemma New_fail:
  assumes "ParseConfig env configDir (world s) = ((cfg, Some e), w)"
  shows "NewTrustedGcrRepository env configDir r rAuth nAuth s =
           ((zero_repository, Some e),
            s\<lparr>trace := trace s @ [Call_ParseConfig configDir,
                                 Log_Errorf ''failed to parse config: %s'' e],
              world := w\<rparr>)"
  using assms by (simp add: NewTrustedGcrRepository_def emit_def Let_def)

lemma New_ok:
  assumes "ParseConfig env configDir (world s) = ((cfg, None), w)"
  shows "NewTrustedGcrRepository env configDir r rAuth nAuth s =
           ((\<lparr>ref = r, registryAuth = rAuth, notaryAuth = nAuth, config = cfg\<rparr>, None),
            s\<lparr>trace := trace s @ [Call_ParseConfig configDir], world := w\<rparr>)"
  using assms by (simp add: NewTrustedGcrRepository_def emit_def Let_def)

lemma ListTarget_fail:
  assumes "listTargets env (ref repo) (notaryAuth repo) (config repo) (world s)
             = ((ts, Some e), w)"
  shows "ListTarget env repo s =
           ((None, Some e), repo,
            s\<lparr>trace := trace s @ [Call_listTargets (ref repo) (notaryAuth repo) (config repo),
                                 Log_Errorf ''failed to list targets: %s'' e],
              world := w\<rparr>)"
  using assms by (simp add: ListTarget_def emit_def Let_def)

lemma ListTarget_ok:
  assumes "listTargets env (ref repo) (notaryAuth repo) (config repo) (world s)
             = ((ts, None), w)"
  shows "ListTarget env repo s =
           ((ts, None), repo,
            s\<lparr>trace := trace s @ [Call_listTargets (ref repo) (notaryAuth repo) (config repo)],
              world := w\<rparr>)"
  using assms by (simp add: ListTarget_def emit_def Let_def)

lemma Verify_fail:
  assumes "getTrustedTarget env (ref repo) (notaryAuth repo) (config repo) (world s)
             = ((t, Some e), w)"
  shows "Verify env repo s =
           ((None, Some e), repo,
            s\<lparr>trace := trace s @ [Call_getTrustedTarget (ref repo) (notaryAuth repo) (config repo),
                                 Log_Errorf ''failed to verify repository: %s'' e],
              world := w\<rparr>)"
  using assms by (simp add: Verify_def emit_def Let_def)

lemma Verify_ok:
  assumes "getTrustedTarget env (ref repo) (notaryAuth repo) (config repo) (world s)
             = ((t, None), w)"
  shows "Verify env repo s =
           ((t, None), repo,
            s\<lparr>trace := trace s @ [Call_getTrustedTarget (ref repo) (notaryAuth repo) (config repo)],
              world := w\<rparr>)"
  using assms by (simp add: Verify_def emit_def Let_def)

lemma SignImage_fail:
  assumes "signImage env (ref repo) img (notaryAuth repo) (config repo) (world s) = (Some e, w)"
  shows "SignImage env repo img s =
           (Some e, repo,
            s\<lparr>trace := trace s @ [Call_signImage (ref repo) img (notaryAuth repo) (config repo),
                                 Log_Errorf ''failed to sign image: %s'' e],
              world := w\<rparr>)"
  using assms by (simp add: SignImage_def emit_def Let_def)

lemma SignImage_ok:
  assumes "signImage env (ref repo) img (notaryAuth repo) (config repo) (world s) = (None, w)"
  shows "SignImage env repo img s =
           (None, repo,
            s\<lparr>trace := trace s @ [Call_signImage (ref repo) img (notaryAuth repo) (config repo)],
              world := w\<rparr>)"
  using assms by (simp add: SignImage_def emit_def Let_def)

lemma RevokeTag_fail:
  assumes "revokeImage env (ref repo) tag (notaryAuth repo) (config repo) (world s) = (Some e, w)"
  shows "RevokeTag env repo tag s =
           (Some e, repo,
            s\<lparr>trace := trace s @ [Call_revokeImage (ref repo) tag (notaryAuth repo) (config repo),
                                 Log_Errorf ''failed to revoke trusted repository: %s'' e],
              world := w\<rparr>)"
  using assms by (simp add: RevokeTag_def emit_def Let_def)


lemma TrustPush_fail:
  assumes "pushImage env (ref repo) img (registryAuth repo) (world s) = (Some e, w)"
  shows "TrustPush env repo img s =
           (Some e, repo,
            s\<lparr>trace := trace s @ [Call_pushImage (ref repo) img (registryAuth repo),
                                 Log_Errorf ''failed to push image: %s'' e],
              world := w\<rparr>)"
  using assms by (simp add: TrustPush_def emit_def Let_def)

lemma TrustPush_ok:
  assumes "pushImage env (ref repo) img (registryAuth repo) (world s) = (None, w)"
    and "pushTrustedReference env (ref repo) img (notaryAuth repo) (config repo) w = (err2, w2)"
  shows "TrustPush env repo img s =
           (err2, repo,
            s\<lparr>trace := trace s @ [Call_pushImage (ref repo) img (registryAuth repo),
                 Call_pushTrustedReference (ref repo) img (notaryAuth repo) (config repo)],
              world := w2\<rparr>)"
  using assms by (simp add: TrustPush_def emit_def Let_def)

lemma receiver_unchanged:
  "fst (snd (ListTarget env repo s)) = repo"
  "fst (snd (TrustPush env repo img s)) = repo"
  "fst (snd (Verify env repo s)) = repo"
  "fst (snd (SignImage env repo img s)) = repo"
  "fst (snd (RevokeTag env repo tag s)) = repo"
  by (simp_all add: op_defs split: prod.splits option.splits)

lemma ListTarget_outcome:
  "outcome (s\<lparr>trace := tr\<rparr>) (ListTarget env repo (s\<lparr>trace := tr\<rparr>))
     = outcome s (ListTarget env repo s)"
  by (simp add: outcome_def events_since_def ListTarget_def emit_def Let_def
      split: prod.splits option.splits)

lemma TrustPush_outcome:
  "outcome (s\<lparr>trace := tr\<rparr>) (TrustPush env repo img (s\<lparr>trace := tr\<rparr>))
     = outcome s (TrustPush env repo img s)"
  by (simp add: outcome_def events_since_def TrustPush_def emit_def Let_def
      split: prod.splits option.splits)

lemma Verify_outcome:
  "outcome (s\<lparr>trace := tr\<rparr>) (Verify env repo (s\<lparr>trace := tr\<rparr>))
     = outcome s (Verify env repo s)"
  by (simp add: outcome_def events_since_def Verify_def emit_def Let_def
      split: prod.splits option.splits)

lemma SignImage_outcome:
  "outcome (s\<lparr>trace := tr\<rparr>) (SignImage env repo img (s\<lparr>trace := tr\<rparr>))
     = outcome s (SignImage env repo img s)"
  by (simp add: outcome_def events_since_def SignImage_def emit_def Let_def
      split: prod.splits option.splits)

lemma RevokeTag_outcome:
  "outcome (s\<lparr>trace := tr\<rparr>) (RevokeTag env repo tag (s\<lparr>trace := tr\<rparr>))
     = outcome s (RevokeTag env repo tag s)"
  by (simp add: outcome_def events_since_def RevokeTag_def emit_def Let_def
      split: prod.splits option.splits)

lemma ListTarget_delegates:
  "outcome s (ListTarget env repo s) =
     (case listTargets env (ref repo) (notaryAuth repo) (config repo) (world s) of
        ((ts, None), w) \<Rightarrow>
          ((ts, None), w, [Call_listTargets (ref repo) (notaryAuth repo) (config repo)])
      | ((ts, Some e), w) \<Rightarrow>
          ((None, Some e), w,
           [Call_listTargets (ref repo) (notaryAuth repo) (config repo),
            Log_Errorf ''failed to list targets: %s'' e]))"
  by (simp add: outcome_def events_since_def ListTarget_def emit_def Let_def
      split: prod.splits option.splits)

lemma TrustPush_delegates:
  "outcome s (TrustPush env repo img s) =
     (case pushImage env (ref repo) img (registryAuth repo) (world s) of
        (Some e, w) \<Rightarrow>
          (Some e, w,
           [Call_pushImage (ref repo) img (registryAuth repo),
            Log_Errorf ''failed to push image: %s'' e])
      | (None, w) \<Rightarrow>
          (case pushTrustedReference env (ref repo) img (notaryAuth repo) (config repo) w of
             (err2, w2) \<Rightarrow>
               (err2, w2,
                [Call_pushImage (ref repo) img (registryAuth repo),
                 Call_pushTrustedReference (ref repo) img (notaryAuth repo) (config repo)])))"
  by (simp add: outcome_def events_since_def TrustPush_def emit_def Let_def
      split: prod.splits option.splits)

lemma Verify_delegates:
  "outcome s (Verify env repo s) =
     (case getTrustedTarget env (ref repo) (notaryAuth repo) (config repo) (world s) of
        ((t, None), w) \<Rightarrow>
          ((t, None), w, [Call_getTrustedTarget (ref repo) (notaryAuth repo) (config repo)])
      | ((t, Some e), w) \<Rightarrow>
          ((None, Some e), w,
           [Call_getTrustedTarget (ref repo) (notaryAuth repo) (config repo),
            Log_Errorf ''failed to verify repository: %s'' e]))"
  by (simp add: outcome_def events_since_def Verify_def emit_def Let_def
      split: prod.splits option.splits)

lemma SignImage_delegates:
  "outcome s (SignImage env repo img s) =
     (case signImage env (ref repo) img (notaryAuth repo) (config repo) (world s) of
        (None, w) \<Rightarrow>
          (None, w, [Call_signImage (ref repo) img (notaryAuth repo) (config repo)])
      | (Some e, w) \<Rightarrow>
          (Some e, w,
           [Call_signImage (ref repo) img (notaryAuth repo) (config repo),
            Log_Errorf ''failed to sign image: %s'' e]))"
  by (simp add: outcome_def events_since_def SignImage_def emit_def Let_def
      split: prod.splits option.splits)

lemma RevokeTag_delegates:
  "outcome s (RevokeTag env repo tag s) =
     (case revokeImage env (ref repo) tag (notaryAuth repo) (config repo) (world s) of
        (None, w) \<Rightarrow>
          (None, w, [Call_revokeImage (ref repo) tag (notaryAuth repo) (config repo)])
      | (Some e, w) \<Rightarrow>
          (Some e, w,
           [Call_revokeImage (ref repo) tag (notaryAuth repo) (config repo),
            Log_Errorf ''failed to revoke trusted repository: %s'' e]))"
  by (simp add: outcome_def events_since_def RevokeTag_def emit_def Let_def
      split: prod.splits option.splits)



lemma routes_one_call [simp]:
  "routes_credentials repo [Call_listTargets r (notaryAuth repo) c]"
  "routes_credentials repo [Call_getTrustedTarget r (notaryAuth repo) c]"
  "routes_credentials repo [Call_signImage r i (notaryAuth repo) c]"
  "routes_credentials repo [Call_revokeImage r t (notaryAuth repo) c]"
  "routes_credentials repo [Call_pushImage r i (registryAuth repo)]"
  "routes_credentials repo [Call_pushTrustedReference r i (notaryAuth repo) c]"
  by (simp_all add: routes_credentials_def)

lemma routes_log [simp]: "routes_credentials repo [Log_Errorf f e]"
  by (simp add: routes_credentials_def)



section \<open>The collaborators of the specification: what a success leaves\<close>

lemma spec_env_sel [simp]:
  "ParseConfig spec_env = spec_ParseConfig"
  "pushImage spec_env = spec_pushImage"
  "pushTrustedReference spec_env = spec_pushTrustedReference"
  "listTargets spec_env = spec_listTargets"
  "getTrustedTarget spec_env = spec_getTrustedTarget"
  "signImage spec_env = spec_signImage"
  "revokeImage spec_env = spec_revokeImage"
  by (simp_all add: spec_env_def)

lemma put_target_flags [simp]:
  "trust_up (put_target r t w) = trust_up w"
  "trust_accepts (put_target r t w) = trust_accepts w"
  "signing_key_usable (put_target r t w) = signing_key_usable w"
  "registry_up (put_target r t w) = registry_up w"
  "registry_accepts (put_target r t w) = registry_accepts w"
  "registry_images (put_target r t w) = registry_images w"
  "config_dirs (put_target r t w) = config_dirs w"
  "configs (put_target r t w) = configs w"
  by (simp_all add: put_target_def)

lemma config_at_put_target [simp]: "config_at (put_target r t w) cfg = config_at w cfg"
  by (simp add: config_at_def split: option.splits config_ptr.splits)

lemma config_at_trust_data [simp]: "config_at (w\<lparr>trust_data := d\<rparr>) cfg = config_at w cfg"
  by (simp add: config_at_def split: option.splits config_ptr.splits)

lemma config_at_registry_images [simp]:
  "config_at (w\<lparr>registry_images := d\<rparr>) cfg = config_at w cfg"
  by (simp add: config_at_def split: option.splits config_ptr.splits)

lemma trust_session_put_target [simp]:
  "trust_session (put_target r t w) a cfg = trust_session w a cfg"
  by (simp add: trust_session_def split: option.splits)

lemma can_sign_put_target [simp]: "can_sign (put_target r t w) cfg = can_sign w cfg"
  by (simp add: can_sign_def split: option.splits)

lemma trust_session_trust_data [simp]:
  "trust_session (w\<lparr>trust_data := d\<rparr>) a cfg = trust_session w a cfg"
  by (simp add: trust_session_def split: option.splits)

lemma repo_targets_put_target:
  "\<exists>m. repo_targets (put_target r t w) (Some r) = Some m \<and> map_of m (ref_tag r) = Some t"
  by (simp add: repo_targets_def put_target_def update_conv')

lemma put_target_twice [simp]: "put_target r t (put_target r t w) = put_target r t w"
  by (simp add: put_target_def update_conv')

lemma getTrustedTarget_put_target:
  assumes "trust_session w a cfg"
  shows "spec_getTrustedTarget (Some r) a cfg (put_target r t w) = ((Some t, None), put_target r t w)"
proof -
  obtain m where "repo_targets (put_target r t w) (Some r) = Some m"
    and "map_of m (ref_tag r) = Some t"
    using repo_targets_put_target by blast
  with assms show ?thesis by (simp add: spec_getTrustedTarget_def)
qed

lemma pushTrustedReference_spec_ok:
  assumes "spec_pushTrustedReference r img a cfg w = (None, w2)"
  shows "\<exists>r' i. r = Some r' \<and> img = Some i \<and> trust_session w a cfg
      \<and> w2 = put_target r' (target_of r' i) w"
  using assms by (auto simp: spec_pushTrustedReference_def split: option.splits if_splits)

lemma signImage_spec_ok:
  assumes "spec_signImage r img a cfg w = (None, w2)"
  shows "\<exists>r' i. r = Some r' \<and> img = Some i \<and> trust_session w a cfg \<and> can_sign w cfg
      \<and> w2 = put_target r' (target_of r' i) w"
  using assms by (auto simp: spec_signImage_def split: option.splits if_splits)

lemma signImage_spec_fail:
  assumes "spec_signImage r img a cfg w = (Some e, w2)"
  shows "w2 = w"
  using assms by (auto simp: spec_signImage_def split: option.splits if_splits)


section \<open>The collaborators of the specification: what a refused credential leaves\<close>









section \<open>Construction\<close>

text \<open>
  Claim C10. When \<^verbatim>\<open>trust.ParseConfig\<close> returns an error, \<^verbatim>\<open>NewTrustedGcrRepository\<close>
  returns the zero-valued adapter, whose four fields are all \<^verbatim>\<open>nil\<close>, together with that
  error; when it returns no error, the constructor returns, without error, the adapter
  holding the given reference, the two given authenticators and the parsed configuration.
\<close>

theorem NewTrustedGcrRepository_result:
  assumes "ParseConfig env configDir (world s) = ((cfg, err), w)"
  shows "(\<forall>e. err = Some e \<longrightarrow>
            fst (NewTrustedGcrRepository env configDir r rAuth nAuth s) = (zero_repository, Some e))
       \<and> (err = None \<longrightarrow>
            fst (NewTrustedGcrRepository env configDir r rAuth nAuth s) =
              (\<lparr>ref = r, registryAuth = rAuth, notaryAuth = nAuth, config = cfg\<rparr>, None))
       \<and> ref zero_repository = None \<and> registryAuth zero_repository = None
       \<and> notaryAuth zero_repository = None \<and> config zero_repository = None"
  using assms by (simp add: NewTrustedGcrRepository_def zero_repository_def Let_def)

text \<open>
  At concrete inputs: a missing configuration directory gives the zero-valued adapter and
  a ConfigError; the directory \<^verbatim>\<open>/etc/notary\<close> gives the adapter of the scenario.
\<close>

theorem NewTrustedGcrRepository_result_witness:
  "fst (NewTrustedGcrRepository spec_env ''/missing'' (Some demo_ref)
          (Some (Authenticator ''registry'')) (Some (Authenticator ''notary'')) (start fresh_world))
     = (zero_repository, Some (Err ConfigError ''/missing''))
   \<and> fst (NewTrustedGcrRepository spec_env ''/etc/notary'' (Some demo_ref)
          (Some (Authenticator ''registry'')) (Some (Authenticator ''notary''))
          (start unconfigured_world))
     = (demo_repo, None)"
proof -
  have bad: "ParseConfig spec_env ''/missing'' (world (start fresh_world))
      = ((None, Some (Err ConfigError ''/missing'')), fresh_world)"
    by (simp add: spec_env_def spec_ParseConfig_def fresh_world_def start_def)
  have good: "ParseConfig spec_env ''/etc/notary'' (world (start unconfigured_world))
      = ((Some (ConfigPtr 0), None), fresh_world)"
    by (simp add: spec_env_def spec_ParseConfig_def fresh_world_def unconfigured_world_def
        start_def)
  show ?thesis
    using NewTrustedGcrRepository_result [OF bad] NewTrustedGcrRepository_result [OF good]
    by (simp add: demo_repo_def)
qed

section \<open>Push: the registry phase comes first\<close>

text \<open>
  Claim C1. If the registry upload of \<^verbatim>\<open>TrustPush\<close> fails, the operation returns the
  error of the registry phase, the state of the world is the one the upload left, and the
  events of the call are the upload and one log line: no call to the trust service.
  Conversely, a call to the trust service among the events of \<^verbatim>\<open>TrustPush\<close> means that
  the upload returned no error, and that call comes after the upload.
\<close>

theorem TrustPush_registry_failure_skips_trust:
  "(\<forall>e w. pushImage env (ref repo) img (registryAuth repo) (world s) = (Some e, w) \<longrightarrow>
       fst (TrustPush env repo img s) = Some e
     \<and> world (snd (snd (TrustPush env repo img s))) = w
     \<and> events_since s (snd (snd (TrustPush env repo img s))) =
         [Call_pushImage (ref repo) img (registryAuth repo),
          Log_Errorf ''failed to push image: %s'' e]
     \<and> filter is_trust_call (events_since s (snd (snd (TrustPush env repo img s)))) = [])
   \<and> (filter is_trust_call (events_since s (snd (snd (TrustPush env repo img s)))) \<noteq> [] \<longrightarrow>
       fst (pushImage env (ref repo) img (registryAuth repo) (world s)) = None
     \<and> events_since s (snd (snd (TrustPush env repo img s))) =
         [Call_pushImage (ref repo) img (registryAuth repo),
          Call_pushTrustedReference (ref repo) img (notaryAuth repo) (config repo)])"
proof (intro conjI allI impI)
  fix e w
  assume f: "pushImage env (ref repo) img (registryAuth repo) (world s) = (Some e, w)"
  show "fst (TrustPush env repo img s) = Some e"
    and "world (snd (snd (TrustPush env repo img s))) = w"
    and "events_since s (snd (snd (TrustPush env repo img s))) =
         [Call_pushImage (ref repo) img (registryAuth repo),
          Log_Errorf ''failed to push image: %s'' e]"
    and "filter is_trust_call (events_since s (snd (snd (TrustPush env repo img s)))) = []"
    by (simp_all add: TrustPush_fail [OF f])
next
  assume t: "filter is_trust_call (events_since s (snd (snd (TrustPush env repo img s)))) \<noteq> []"
  obtain err w where p: "pushImage env (ref repo) img (registryAuth repo) (world s) = (err, w)"
    by (cases "pushImage env (ref repo) img (registryAuth repo) (world s)")
  obtain err2 w2 where
    q: "pushTrustedReference env (ref repo) img (notaryAuth repo) (config repo) w = (err2, w2)"
    by (cases "pushTrustedReference env (ref repo) img (notaryAuth repo) (config repo) w")
  have none: "err = None"
  proof (cases err)
    case None
    then show ?thesis .
  next
    case (Some e)
    with p t show ?thesis by (simp add: TrustPush_fail)
  qed
  with p show "fst (pushImage env (ref repo) img (registryAuth repo) (world s)) = None"
    by simp
  from p q none
  show "events_since s (snd (snd (TrustPush env repo img s))) =
         [Call_pushImage (ref repo) img (registryAuth repo),
          Call_pushTrustedReference (ref repo) img (notaryAuth repo) (config repo)]"
    by (simp add: TrustPush_ok)
qed

text \<open>
  At concrete inputs: with the registry down, \<^verbatim>\<open>TrustPush\<close> returns the RegistryPushError
  and calls the trust service not once; with the registry up, the publication follows the
  upload.
\<close>

theorem TrustPush_registry_failure_skips_trust_witness:
  "fst (TrustPush spec_env demo_repo (Some demo_image) (start registry_down)) =
     Some (Err RegistryPushError ''registry transport or authentication failure'')
   \<and> world (snd (snd (TrustPush spec_env demo_repo (Some demo_image) (start registry_down))))
       = registry_down
   \<and> filter is_trust_call
       (events_since (start registry_down)
          (snd (snd (TrustPush spec_env demo_repo (Some demo_image) (start registry_down))))) = []
   \<and> fst (pushImage spec_env (ref demo_repo) (Some demo_image) (registryAuth demo_repo)
            (world (start fresh_world))) = None
   \<and> events_since (start fresh_world)
        (snd (snd (TrustPush spec_env demo_repo (Some demo_image) (start fresh_world)))) =
         [Call_pushImage (ref demo_repo) (Some demo_image) (registryAuth demo_repo),
          Call_pushTrustedReference (ref demo_repo) (Some demo_image) (notaryAuth demo_repo)
            (config demo_repo)]"
proof -
  have f: "pushImage spec_env (ref demo_repo) (Some demo_image) (registryAuth demo_repo)
             (world (start registry_down))
           = (Some (Err RegistryPushError ''registry transport or authentication failure''),
              registry_down)"
    by (simp add: spec_env_def spec_pushImage_def registry_session_def registry_down_def
        demo_defs)
  have t: "filter is_trust_call
       (events_since (start fresh_world)
          (snd (snd (TrustPush spec_env demo_repo (Some demo_image) (start fresh_world))))) \<noteq> []"
    by (simp add: TrustPush_def emit_def Let_def events_since_def spec_defs demo_defs)
  show ?thesis
    using TrustPush_registry_failure_skips_trust
            [of spec_env demo_repo "Some demo_image" "start registry_down"]
          TrustPush_registry_failure_skips_trust
            [of spec_env demo_repo "Some demo_image" "start fresh_world"] f t
    by simp
qed

section \<open>No error is swallowed\<close>

text \<open>
  Claim C7. Whenever a collaborator an operation calls returns an error, the operation
  returns that error, hence a non-nil error, to its caller: \<^verbatim>\<open>NewTrustedGcrRepository\<close>,
  \<^verbatim>\<open>ListTarget\<close>, both phases of \<^verbatim>\<open>TrustPush\<close>, \<^verbatim>\<open>Verify\<close>, \<^verbatim>\<open>SignImage\<close> and
  \<^verbatim>\<open>RevokeTag\<close>. No partial success is a success: \<^verbatim>\<open>TrustPush\<close> returns \<^verbatim>\<open>nil\<close> only
  when the upload and the trust publication both returned \<^verbatim>\<open>nil\<close>.
\<close>

theorem no_error_swallowed:
  "(snd (fst (ParseConfig env configDir (world s))) = Some e \<longrightarrow>
      snd (fst (NewTrustedGcrRepository env configDir r rAuth nAuth s)) = Some e)
   \<and> (snd (fst (listTargets env (ref repo) (notaryAuth repo) (config repo) (world s))) = Some e
        \<longrightarrow> fst (ListTarget env repo s) = (None, Some e))
   \<and> (fst (pushImage env (ref repo) img (registryAuth repo) (world s)) = Some e \<longrightarrow>
        fst (TrustPush env repo img s) = Some e)
   \<and> (fst (pushImage env (ref repo) img (registryAuth repo) (world s)) = None
        \<and> fst (pushTrustedReference env (ref repo) img (notaryAuth repo) (config repo)
                 (snd (pushImage env (ref repo) img (registryAuth repo) (world s)))) = Some e
        \<longrightarrow> fst (TrustPush env repo img s) = Some e)
   \<and> (fst (TrustPush env repo img s) = None \<longrightarrow>
        fst (pushImage env (ref repo) img (registryAuth repo) (world s)) = None
        \<and> fst (pushTrustedReference env (ref repo) img (notaryAuth repo) (config repo)
                 (snd (pushImage env (ref repo) img (registryAuth repo) (world s)))) = None)
   \<and> (snd (fst (getTrustedTarget env (ref repo) (notaryAuth repo) (config repo) (world s)))
          = Some e
        \<longrightarrow> fst (Verify env repo s) = (None, Some e))
   \<and> (fst (signImage env (ref repo) img (notaryAuth repo) (config repo) (world s)) = Some e
        \<longrightarrow> fst (SignImage env repo img s) = Some e)
   \<and> (fst (revokeImage env (ref repo) tag (notaryAuth repo) (config repo) (world s)) = Some e
        \<longrightarrow> fst (RevokeTag env repo tag s) = Some e)"
proof (intro conjI impI)
  assume "snd (fst (ParseConfig env configDir (world s))) = Some e"
  then show "snd (fst (NewTrustedGcrRepository env configDir r rAuth nAuth s)) = Some e"
    by (cases "ParseConfig env configDir (world s)") (auto simp: New_fail)
next
  assume "snd (fst (listTargets env (ref repo) (notaryAuth repo) (config repo) (world s))) = Some e"
  then show "fst (ListTarget env repo s) = (None, Some e)"
    by (cases "listTargets env (ref repo) (notaryAuth repo) (config repo) (world s)")
       (auto simp: ListTarget_fail)
next
  assume "fst (pushImage env (ref repo) img (registryAuth repo) (world s)) = Some e"
  then show "fst (TrustPush env repo img s) = Some e"
    by (cases "pushImage env (ref repo) img (registryAuth repo) (world s)")
       (auto simp: TrustPush_fail)
next
  assume "fst (pushImage env (ref repo) img (registryAuth repo) (world s)) = None
        \<and> fst (pushTrustedReference env (ref repo) img (notaryAuth repo) (config repo)
                 (snd (pushImage env (ref repo) img (registryAuth repo) (world s)))) = Some e"
  then show "fst (TrustPush env repo img s) = Some e"
    by (auto simp: TrustPush_def Let_def split: prod.splits option.splits)
next
  assume a: "fst (TrustPush env repo img s) = None"
  then show "fst (pushImage env (ref repo) img (registryAuth repo) (world s)) = None"
    by (auto simp: TrustPush_def Let_def split: prod.splits option.splits)
  from a show "fst (pushTrustedReference env (ref repo) img (notaryAuth repo) (config repo)
                 (snd (pushImage env (ref repo) img (registryAuth repo) (world s)))) = None"
    by (auto simp: TrustPush_def Let_def split: prod.splits option.splits)
next
  assume "snd (fst (getTrustedTarget env (ref repo) (notaryAuth repo) (config repo) (world s)))
          = Some e"
  then show "fst (Verify env repo s) = (None, Some e)"
    by (cases "getTrustedTarget env (ref repo) (notaryAuth repo) (config repo) (world s)")
       (auto simp: Verify_fail)
next
  assume "fst (signImage env (ref repo) img (notaryAuth repo) (config repo) (world s)) = Some e"
  then show "fst (SignImage env repo img s) = Some e"
    by (cases "signImage env (ref repo) img (notaryAuth repo) (config repo) (world s)")
       (auto simp: SignImage_fail)
next
  assume "fst (revokeImage env (ref repo) tag (notaryAuth repo) (config repo) (world s)) = Some e"
  then show "fst (RevokeTag env repo tag s) = Some e"
    by (cases "revokeImage env (ref repo) tag (notaryAuth repo) (config repo) (world s)")
       (auto simp: RevokeTag_fail)
qed

text \<open>
  At concrete inputs: with nothing reached every operation returns the error of its
  collaborator; with only the trust service down \<^verbatim>\<open>TrustPush\<close> returns the error of the
  publication; with everything reached it returns \<^verbatim>\<open>nil\<close>.
\<close>

theorem no_error_swallowed_witness:
  "snd (fst (NewTrustedGcrRepository spec_env ''/etc/notary'' (Some demo_ref)
        (Some (Authenticator ''registry'')) (Some (Authenticator ''notary'')) (start all_down)))
     = Some (Err ConfigError ''/etc/notary'')
   \<and> fst (ListTarget spec_env demo_repo (start all_down))
       = (None, Some (Err TrustUnavailable ''trust service not reached''))
   \<and> fst (TrustPush spec_env demo_repo (Some demo_image) (start all_down))
       = Some (Err RegistryPushError ''registry transport or authentication failure'')
   \<and> fst (TrustPush spec_env demo_repo (Some demo_image) (start trust_down))
       = Some (Err TrustPublishError ''trust data not published'')
   \<and> fst (TrustPush spec_env demo_repo (Some demo_image) (start fresh_world)) = None
   \<and> fst (Verify spec_env demo_repo (start all_down))
       = (None, Some (Err TrustUnavailable ''trust service not reached''))
   \<and> fst (SignImage spec_env demo_repo (Some demo_image) (start all_down))
       = Some (Err TrustUnavailable ''trust service not reached'')
   \<and> fst (RevokeTag spec_env demo_repo ''v1'' (start all_down))
       = Some (Err TrustUnavailable ''trust service not reached'')"
proof -
  note t = no_error_swallowed [where env = spec_env and repo = demo_repo
      and img = "Some demo_image" and tag = "''v1''" and configDir = "''/etc/notary''"
      and r = "Some demo_ref" and rAuth = "Some (Authenticator ''registry'')"
      and nAuth = "Some (Authenticator ''notary'')"]
  show ?thesis
    using t [where s = "start all_down" and e = "Err ConfigError ''/etc/notary''"]
      t [where s = "start all_down" and e = "Err TrustUnavailable ''trust service not reached''"]
      t [where s = "start all_down"
           and e = "Err RegistryPushError ''registry transport or authentication failure''"]
      t [where s = "start trust_down" and e = "Err TrustPublishError ''trust data not published''"]
      t [where s = "start fresh_world" and e = "Err ConfigError []"]
    by (simp add: op_defs spec_defs demo_defs world_defs)
qed

section \<open>The adapter keeps no state\<close>

text \<open>
  Claim C9. Every method returns the adapter it was called on, with its four fields as they
  were, whatever the collaborators do: gcr.go assigns to no field. The field \<^verbatim>\<open>config\<close>
  is the pointer; the configuration it points to is not held by the adapter but by the
  world, which the operation leaves as its collaborator left it. And each call is a
  delegation: its results, the world it leaves and the events it adds are those of the
  collaborator applied to the four fields and the arguments, with the error logged and
  the value dropped on failure; so they do not depend on what happened before (the
  trace).
\<close>

theorem adapter_unchanged_pure_delegation:
  "fst (snd (ListTarget env repo s)) = repo
   \<and> fst (snd (TrustPush env repo img s)) = repo
   \<and> fst (snd (Verify env repo s)) = repo
   \<and> fst (snd (SignImage env repo img s)) = repo
   \<and> fst (snd (RevokeTag env repo tag s)) = repo
   \<and> outcome s (ListTarget env repo s) =
       (case listTargets env (ref repo) (notaryAuth repo) (config repo) (world s) of
          ((ts, None), w) \<Rightarrow>
            ((ts, None), w, [Call_listTargets (ref repo) (notaryAuth repo) (config repo)])
        | ((ts, Some e), w) \<Rightarrow>
            ((None, Some e), w,
             [Call_listTargets (ref repo) (notaryAuth repo) (config repo),
              Log_Errorf ''failed to list targets: %s'' e]))
   \<and> outcome s (TrustPush env repo img s) =
       (case pushImage env (ref repo) img (registryAuth repo) (world s) of
          (Some e, w) \<Rightarrow>
            (Some e, w,
             [Call_pushImage (ref repo) img (registryAuth repo),
              Log_Errorf ''failed to push image: %s'' e])
        | (None, w) \<Rightarrow>
            (case pushTrustedReference env (ref repo) img (notaryAuth repo) (config repo) w of
               (err2, w2) \<Rightarrow>
                 (err2, w2,
                  [Call_pushImage (ref repo) img (registryAuth repo),
                   Call_pushTrustedReference (ref repo) img (notaryAuth repo) (config repo)])))
   \<and> outcome s (Verify env repo s) =
       (case getTrustedTarget env (ref repo) (notaryAuth repo) (config repo) (world s) of
          ((t, None), w) \<Rightarrow>
            ((t, None), w, [Call_getTrustedTarget (ref repo) (notaryAuth repo) (config repo)])
        | ((t, Some e), w) \<Rightarrow>
            ((None, Some e), w,
             [Call_getTrustedTarget (ref repo) (notaryAuth repo) (config repo),
              Log_Errorf ''failed to verify repository: %s'' e]))
   \<and> outcome s (SignImage env repo img s) =
       (case signImage env (ref repo) img (notaryAuth repo) (config repo) (world s) of
          (None, w) \<Rightarrow>
            (None, w, [Call_signImage (ref repo) img (notaryAuth repo) (config repo)])
        | (Some e, w) \<Rightarrow>
            (Some e, w,
             [Call_signImage (ref repo) img (notaryAuth repo) (config repo),
              Log_Errorf ''failed to sign image: %s'' e]))
   \<and> outcome s (RevokeTag env repo tag s) =
       (case revokeImage env (ref repo) tag (notaryAuth repo) (config repo) (world s) of
          (None, w) \<Rightarrow>
            (None, w, [Call_revokeImage (ref repo) tag (notaryAuth repo) (config repo)])
        | (Some e, w) \<Rightarrow>
            (Some e, w,
             [Call_revokeImage (ref repo) tag (notaryAuth repo) (config repo),
              Log_Errorf ''failed to revoke trusted repository: %s'' e]))
   \<and> outcome (s\<lparr>trace := tr\<rparr>) (ListTarget env repo (s\<lparr>trace := tr\<rparr>))
       = outcome s (ListTarget env repo s)
   \<and> outcome (s\<lparr>trace := tr\<rparr>) (TrustPush env repo img (s\<lparr>trace := tr\<rparr>))
       = outcome s (TrustPush env repo img s)
   \<and> outcome (s\<lparr>trace := tr\<rparr>) (Verify env repo (s\<lparr>trace := tr\<rparr>))
       = outcome s (Verify env repo s)
   \<and> outcome (s\<lparr>trace := tr\<rparr>) (SignImage env repo img (s\<lparr>trace := tr\<rparr>))
       = outcome s (SignImage env repo img s)
   \<and> outcome (s\<lparr>trace := tr\<rparr>) (RevokeTag env repo tag (s\<lparr>trace := tr\<rparr>))
       = outcome s (RevokeTag env repo tag s)"
proof (intro conjI)
  show "outcome s (ListTarget env repo s) =
       (case listTargets env (ref repo) (notaryAuth repo) (config repo) (world s) of
          ((ts, None), w) \<Rightarrow>
            ((ts, None), w, [Call_listTargets (ref repo) (notaryAuth repo) (config repo)])
        | ((ts, Some e), w) \<Rightarrow>
            ((None, Some e), w,
             [Call_listTargets (ref repo) (notaryAuth repo) (config repo),
              Log_Errorf ''failed to list targets: %s'' e]))"
    by (rule ListTarget_delegates)
  show "outcome s (TrustPush env repo img s) =
       (case pushImage env (ref repo) img (registryAuth repo) (world s) of
          (Some e, w) \<Rightarrow>
            (Some e, w,
             [Call_pushImage (ref repo) img (registryAuth repo),
              Log_Errorf ''failed to push image: %s'' e])
        | (None, w) \<Rightarrow>
            (case pushTrustedReference env (ref repo) img (notaryAuth repo) (config repo) w of
               (err2, w2) \<Rightarrow>
                 (err2, w2,
                  [Call_pushImage (ref repo) img (registryAuth repo),
                   Call_pushTrustedReference (ref repo) img (notaryAuth repo) (config repo)])))"
    by (rule TrustPush_delegates)
  show "outcome s (Verify env repo s) =
       (case getTrustedTarget env (ref repo) (notaryAuth repo) (config repo) (world s) of
          ((t, None), w) \<Rightarrow>
            ((t, None), w, [Call_getTrustedTarget (ref repo) (notaryAuth repo) (config repo)])
        | ((t, Some e), w) \<Rightarrow>
            ((None, Some e), w,
             [Call_getTrustedTarget (ref repo) (notaryAuth repo) (config repo),
              Log_Errorf ''failed to verify repository: %s'' e]))"
    by (rule Verify_delegates)
  show "outcome s (SignImage env repo img s) =
       (case signImage env (ref repo) img (notaryAuth repo) (config repo) (world s) of
          (None, w) \<Rightarrow>
            (None, w, [Call_signImage (ref repo) img (notaryAuth repo) (config repo)])
        | (Some e, w) \<Rightarrow>
            (Some e, w,
             [Call_signImage (ref repo) img (notaryAuth repo) (config repo),
              Log_Errorf ''failed to sign image: %s'' e]))"
    by (rule SignImage_delegates)
  show "outcome s (RevokeTag env repo tag s) =
       (case revokeImage env (ref repo) tag (notaryAuth repo) (config repo) (world s) of
          (None, w) \<Rightarrow>
            (None, w, [Call_revokeImage (ref repo) tag (notaryAuth repo) (config repo)])
        | (Some e, w) \<Rightarrow>
            (Some e, w,
             [Call_revokeImage (ref repo) tag (notaryAuth repo) (config repo),
              Log_Errorf ''failed to revoke trusted repository: %s'' e]))"
    by (rule RevokeTag_delegates)
qed (simp_all add: receiver_unchanged ListTarget_outcome TrustPush_outcome Verify_outcome
      SignImage_outcome RevokeTag_outcome)

text \<open>
  At concrete inputs: \<^verbatim>\<open>TrustPush\<close> in the fresh world and \<^verbatim>\<open>Verify\<close> in the world of the
  signed image return the adapter of the scenario, with the results, the world and the
  calls of their collaborators. With the collaborator that writes the configuration,
  \<^verbatim>\<open>Verify\<close> still returns the adapter with its four fields, the pointer among them,
  while the configuration behind the pointer has changed.
\<close>

theorem adapter_unchanged_pure_delegation_witness:
  "fst (snd (TrustPush spec_env demo_repo (Some demo_image) (start fresh_world))) = demo_repo
   \<and> fst (TrustPush spec_env demo_repo (Some demo_image) (start fresh_world)) = None
   \<and> events_since (start fresh_world)
        (snd (snd (TrustPush spec_env demo_repo (Some demo_image) (start fresh_world))))
       = [Call_pushImage (Some demo_ref) (Some demo_image) (Some (Authenticator ''registry'')),
          Call_pushTrustedReference (Some demo_ref) (Some demo_image)
            (Some (Authenticator ''notary'')) (Some (ConfigPtr 0))]
   \<and> fst (snd (Verify spec_env demo_repo (start signed_world))) = demo_repo
   \<and> outcome (start signed_world) (Verify spec_env demo_repo (start signed_world))
       = ((Some \<lparr>target_name = ''v1'', target_digest = ''sha256:aaa'', target_length = 1024\<rparr>,
           None),
          signed_world,
          [Call_getTrustedTarget (Some demo_ref) (Some (Authenticator ''notary''))
             (Some (ConfigPtr 0))])
   \<and> fst (snd (Verify meddling_env demo_repo (start signed_world))) = demo_repo
   \<and> map_option (\<lambda>c. passphrase c ''targets'')
        (config_at (world (start signed_world)) (config demo_repo)) = Some (Some ''passphrase'')
   \<and> map_option (\<lambda>c. passphrase c ''targets'')
        (config_at (world (snd (snd (Verify meddling_env demo_repo (start signed_world)))))
           (config demo_repo)) = Some None"
proof -
  note m = adapter_unchanged_pure_delegation [of meddling_env demo_repo "start signed_world"
      "Some demo_image" "''v1''" "[]"]
  have mv: "getTrustedTarget meddling_env (ref demo_repo) (notaryAuth demo_repo)
             (config demo_repo) (world (start signed_world))
           = ((Some \<lparr>target_name = ''v1'', target_digest = ''sha256:aaa'',
                     target_length = 1024\<rparr>, None),
              signed_world\<lparr>configs := [demo_config\<lparr>passphrase := (\<lambda>role. None)\<rparr>]\<rparr>)"
    by (simp add: meddling_env_def spec_defs demo_defs signed_world_def)
  from m mv have ma: "fst (snd (Verify meddling_env demo_repo (start signed_world))) = demo_repo"
    and mb: "outcome (start signed_world) (Verify meddling_env demo_repo (start signed_world))
       = ((Some \<lparr>target_name = ''v1'', target_digest = ''sha256:aaa'', target_length = 1024\<rparr>,
           None),
          signed_world\<lparr>configs := [demo_config\<lparr>passphrase := (\<lambda>role. None)\<rparr>]\<rparr>,
          [Call_getTrustedTarget (ref demo_repo) (notaryAuth demo_repo) (config demo_repo)])"
    by simp_all
  from mb have mc: "world (snd (snd (Verify meddling_env demo_repo (start signed_world))))
      = signed_world\<lparr>configs := [demo_config\<lparr>passphrase := (\<lambda>role. None)\<rparr>]\<rparr>"
    by (simp add: outcome_def)
  have md: "map_option (\<lambda>c. passphrase c ''targets'')
        (config_at (world (start signed_world)) (config demo_repo)) = Some (Some ''passphrase'')
   \<and> map_option (\<lambda>c. passphrase c ''targets'')
        (config_at (world (snd (snd (Verify meddling_env demo_repo (start signed_world)))))
           (config demo_repo)) = Some None"
    unfolding mc by (simp add: config_at_def demo_defs signed_world_def)
  have v: "getTrustedTarget spec_env (ref demo_repo) (notaryAuth demo_repo) (config demo_repo)
             (world (start signed_world))
           = ((Some \<lparr>target_name = ''v1'', target_digest = ''sha256:aaa'',
                     target_length = 1024\<rparr>, None), signed_world)"
    by (simp add: spec_defs demo_defs signed_world_def)
  have p: "pushImage spec_env (ref demo_repo) (Some demo_image) (registryAuth demo_repo)
             (world (start fresh_world))
           = (None, fresh_world\<lparr>registry_images := [(demo_ref, demo_image)]\<rparr>)"
    by (simp add: spec_defs demo_defs)
  have q: "fst (pushTrustedReference spec_env (ref demo_repo) (Some demo_image)
             (notaryAuth demo_repo) (config demo_repo)
             (fresh_world\<lparr>registry_images := [(demo_ref, demo_image)]\<rparr>)) = None"
    by (simp add: spec_defs demo_defs)
  have f: "ref demo_repo = Some demo_ref"
    "registryAuth demo_repo = Some (Authenticator ''registry'')"
    "notaryAuth demo_repo = Some (Authenticator ''notary'')"
    "config demo_repo = Some (ConfigPtr 0)"
    by (simp_all add: demo_repo_def)
  note t = adapter_unchanged_pure_delegation [of spec_env demo_repo _ "Some demo_image" "''v1''" "[]"]
  from t [of "start signed_world"] v
  have a: "fst (snd (Verify spec_env demo_repo (start signed_world))) = demo_repo"
    and b: "outcome (start signed_world) (Verify spec_env demo_repo (start signed_world))
       = ((Some \<lparr>target_name = ''v1'', target_digest = ''sha256:aaa'', target_length = 1024\<rparr>,
           None),
          signed_world,
          [Call_getTrustedTarget (Some demo_ref) (Some (Authenticator ''notary''))
             (Some (ConfigPtr 0))])"
    by (simp_all add: f)
  from t [of "start fresh_world"] p q
  have c: "fst (snd (TrustPush spec_env demo_repo (Some demo_image) (start fresh_world))) = demo_repo"
    and d: "outcome (start fresh_world)
              (TrustPush spec_env demo_repo (Some demo_image) (start fresh_world))
            = (None,
               snd (pushTrustedReference spec_env (ref demo_repo) (Some demo_image)
                 (notaryAuth demo_repo) (config demo_repo)
                 (fresh_world\<lparr>registry_images := [(demo_ref, demo_image)]\<rparr>)),
               [Call_pushImage (Some demo_ref) (Some demo_image) (Some (Authenticator ''registry'')),
                Call_pushTrustedReference (Some demo_ref) (Some demo_image)
                  (Some (Authenticator ''notary'')) (Some (ConfigPtr 0))])"
    by (simp_all add: f split: prod.splits)
  from a b c d ma md show ?thesis by (simp add: outcome_def)
qed

section \<open>Errors: returned as they are, logged where they are detected\<close>

text \<open>
  Claim C6, as stated, asks that every error of a collaborator be wrapped by the adapter
  and logged exactly once, on every failing path, the trust-publish phase of Push
  included. It fails on that phase: in a world where the registry is reached and the trust
  service is not, the upload succeeds, \<^verbatim>\<open>pushTrustedReference\<close> returns a TrustPublishError,
  \<^verbatim>\<open>TrustPush\<close> returns this very error value, and the adapter writes no log line at all.
\<close>

theorem TrustPush_publish_failure_not_logged:
  "fst (pushImage spec_env (ref demo_repo) (Some demo_image) (registryAuth demo_repo)
          (world (start trust_down))) = None
   \<and> fst (pushTrustedReference spec_env (ref demo_repo) (Some demo_image) (notaryAuth demo_repo)
          (config demo_repo)
          (snd (pushImage spec_env (ref demo_repo) (Some demo_image) (registryAuth demo_repo)
             (world (start trust_down)))))
       = Some (Err TrustPublishError ''trust data not published'')
   \<and> fst (TrustPush spec_env demo_repo (Some demo_image) (start trust_down))
       = Some (Err TrustPublishError ''trust data not published'')
   \<and> length (filter is_log
        (events_since (start trust_down)
           (snd (snd (TrustPush spec_env demo_repo (Some demo_image) (start trust_down)))))) = 0"
  by (simp add: op_defs events_since_def spec_defs demo_defs world_defs)

text \<open>
  Claim C6, amended. Every error returned by a collaborator is returned to the caller as
  it is, without wrapping, the error of the trust-publish phase of \<^verbatim>\<open>TrustPush\<close> too. On
  each failing path of \<^verbatim>\<open>NewTrustedGcrRepository\<close>, \<^verbatim>\<open>ListTarget\<close>, the registry phase of
  \<^verbatim>\<open>TrustPush\<close>, \<^verbatim>\<open>Verify\<close>, \<^verbatim>\<open>SignImage\<close> and \<^verbatim>\<open>RevokeTag\<close> the adapter writes exactly
  one log line, whose message names the failed operation and holds the error. Nothing is
  said of the log of the trust-publish phase.
\<close>

theorem collaborator_error_returned_and_logged_once:
  "(snd (fst (ParseConfig env configDir (world s))) = Some e \<longrightarrow>
      snd (fst (NewTrustedGcrRepository env configDir r rAuth nAuth s)) = Some e
      \<and> filter is_log (events_since s (snd (NewTrustedGcrRepository env configDir r rAuth nAuth s)))
          = [Log_Errorf ''failed to parse config: %s'' e])
   \<and> (snd (fst (listTargets env (ref repo) (notaryAuth repo) (config repo) (world s))) = Some e
        \<longrightarrow> snd (fst (ListTarget env repo s)) = Some e
          \<and> filter is_log (events_since s (snd (snd (ListTarget env repo s))))
              = [Log_Errorf ''failed to list targets: %s'' e])
   \<and> (fst (pushImage env (ref repo) img (registryAuth repo) (world s)) = Some e \<longrightarrow>
        fst (TrustPush env repo img s) = Some e
        \<and> filter is_log (events_since s (snd (snd (TrustPush env repo img s))))
            = [Log_Errorf ''failed to push image: %s'' e])
   \<and> (fst (pushImage env (ref repo) img (registryAuth repo) (world s)) = None
        \<and> fst (pushTrustedReference env (ref repo) img (notaryAuth repo) (config repo)
                 (snd (pushImage env (ref repo) img (registryAuth repo) (world s)))) = Some e
        \<longrightarrow> fst (TrustPush env repo img s) = Some e)
   \<and> (snd (fst (getTrustedTarget env (ref repo) (notaryAuth repo) (config repo) (world s)))
          = Some e
        \<longrightarrow> snd (fst (Verify env repo s)) = Some e
          \<and> filter is_log (events_since s (snd (snd (Verify env repo s))))
              = [Log_Errorf ''failed to verify repository: %s'' e])
   \<and> (fst (signImage env (ref repo) img (notaryAuth repo) (config repo) (world s)) = Some e
        \<longrightarrow> fst (SignImage env repo img s) = Some e
          \<and> filter is_log (events_since s (snd (snd (SignImage env repo img s))))
              = [Log_Errorf ''failed to sign image: %s'' e])
   \<and> (fst (revokeImage env (ref repo) tag (notaryAuth repo) (config repo) (world s)) = Some e
        \<longrightarrow> fst (RevokeTag env repo tag s) = Some e
          \<and> filter is_log (events_since s (snd (snd (RevokeTag env repo tag s))))
              = [Log_Errorf ''failed to revoke trusted repository: %s'' e])"
proof (intro conjI impI)
  assume a: "snd (fst (ParseConfig env configDir (world s))) = Some e"
  then obtain cfg w where "ParseConfig env configDir (world s) = ((cfg, Some e), w)"
    by (cases "ParseConfig env configDir (world s)") auto
  note f = New_fail [OF this]
  show "snd (fst (NewTrustedGcrRepository env configDir r rAuth nAuth s)) = Some e"
    and "filter is_log (events_since s (snd (NewTrustedGcrRepository env configDir r rAuth nAuth s)))
          = [Log_Errorf ''failed to parse config: %s'' e]"
    by (simp_all add: f)
next
  assume "snd (fst (listTargets env (ref repo) (notaryAuth repo) (config repo) (world s))) = Some e"
  then obtain ts w where
    "listTargets env (ref repo) (notaryAuth repo) (config repo) (world s) = ((ts, Some e), w)"
    by (cases "listTargets env (ref repo) (notaryAuth repo) (config repo) (world s)") auto
  note f = ListTarget_fail [OF this]
  show "snd (fst (ListTarget env repo s)) = Some e"
    and "filter is_log (events_since s (snd (snd (ListTarget env repo s))))
              = [Log_Errorf ''failed to list targets: %s'' e]"
    by (simp_all add: f)
next
  assume "fst (pushImage env (ref repo) img (registryAuth repo) (world s)) = Some e"
  then obtain w where "pushImage env (ref repo) img (registryAuth repo) (world s) = (Some e, w)"
    by (cases "pushImage env (ref repo) img (registryAuth repo) (world s)") auto
  note f = TrustPush_fail [OF this]
  show "fst (TrustPush env repo img s) = Some e"
    and "filter is_log (events_since s (snd (snd (TrustPush env repo img s))))
            = [Log_Errorf ''failed to push image: %s'' e]"
    by (simp_all add: f)
next
  assume "fst (pushImage env (ref repo) img (registryAuth repo) (world s)) = None
        \<and> fst (pushTrustedReference env (ref repo) img (notaryAuth repo) (config repo)
                 (snd (pushImage env (ref repo) img (registryAuth repo) (world s)))) = Some e"
  then show "fst (TrustPush env repo img s) = Some e"
    by (auto simp: TrustPush_def Let_def split: prod.splits option.splits)
next
  assume "snd (fst (getTrustedTarget env (ref repo) (notaryAuth repo) (config repo) (world s)))
          = Some e"
  then obtain t w where
    "getTrustedTarget env (ref repo) (notaryAuth repo) (config repo) (world s) = ((t, Some e), w)"
    by (cases "getTrustedTarget env (ref repo) (notaryAuth repo) (config repo) (world s)") auto
  note f = Verify_fail [OF this]
  show "snd (fst (Verify env repo s)) = Some e"
    and "filter is_log (events_since s (snd (snd (Verify env repo s))))
              = [Log_Errorf ''failed to verify repository: %s'' e]"
    by (simp_all add: f)
next
  assume "fst (signImage env (ref repo) img (notaryAuth repo) (config repo) (world s)) = Some e"
  then obtain w where
    "signImage env (ref repo) img (notaryAuth repo) (config repo) (world s) = (Some e, w)"
    by (cases "signImage env (ref repo) img (notaryAuth repo) (config repo) (world s)") auto
  note f = SignImage_fail [OF this]
  show "fst (SignImage env repo img s) = Some e"
    and "filter is_log (events_since s (snd (snd (SignImage env repo img s))))
              = [Log_Errorf ''failed to sign image: %s'' e]"
    by (simp_all add: f)
next
  assume "fst (revokeImage env (ref repo) tag (notaryAuth repo) (config repo) (world s)) = Some e"
  then obtain w where
    "revokeImage env (ref repo) tag (notaryAuth repo) (config repo) (world s) = (Some e, w)"
    by (cases "revokeImage env (ref repo) tag (notaryAuth repo) (config repo) (world s)") auto
  note f = RevokeTag_fail [OF this]
  show "fst (RevokeTag env repo tag s) = Some e"
    and "filter is_log (events_since s (snd (snd (RevokeTag env repo tag s))))
              = [Log_Errorf ''failed to revoke trusted repository: %s'' e]"
    by (simp_all add: f)
qed

text \<open>
  At concrete inputs: with nothing reached, each of the six paths returns the error of its
  collaborator and logs it once; with only the trust service down, \<^verbatim>\<open>TrustPush\<close> returns
  the error of the publication.
\<close>

theorem collaborator_error_returned_and_logged_once_witness:
  "filter is_log (events_since (start all_down)
       (snd (NewTrustedGcrRepository spec_env ''/etc/notary'' (Some demo_ref)
          (Some (Authenticator ''registry'')) (Some (Authenticator ''notary'')) (start all_down))))
     = [Log_Errorf ''failed to parse config: %s'' (Err ConfigError ''/etc/notary'')]
   \<and> filter is_log (events_since (start all_down)
         (snd (snd (ListTarget spec_env demo_repo (start all_down)))))
       = [Log_Errorf ''failed to list targets: %s''
            (Err TrustUnavailable ''trust service not reached'')]
   \<and> fst (TrustPush spec_env demo_repo (Some demo_image) (start all_down))
       = Some (Err RegistryPushError ''registry transport or authentication failure'')
   \<and> filter is_log (events_since (start all_down)
         (snd (snd (TrustPush spec_env demo_repo (Some demo_image) (start all_down)))))
       = [Log_Errorf ''failed to push image: %s''
            (Err RegistryPushError ''registry transport or authentication failure'')]
   \<and> fst (TrustPush spec_env demo_repo (Some demo_image) (start trust_down))
       = Some (Err TrustPublishError ''trust data not published'')
   \<and> filter is_log (events_since (start all_down)
         (snd (snd (Verify spec_env demo_repo (start all_down)))))
       = [Log_Errorf ''failed to verify repository: %s''
            (Err TrustUnavailable ''trust service not reached'')]
   \<and> filter is_log (events_since (start all_down)
         (snd (snd (SignImage spec_env demo_repo (Some demo_image) (start all_down)))))
       = [Log_Errorf ''failed to sign image: %s''
            (Err TrustUnavailable ''trust service not reached'')]
   \<and> filter is_log (events_since (start all_down)
         (snd (snd (RevokeTag spec_env demo_repo ''v1'' (start all_down)))))
       = [Log_Errorf ''failed to revoke trusted repository: %s''
            (Err TrustUnavailable ''trust service not reached'')]"
proof -
  note t = collaborator_error_returned_and_logged_once [where env = spec_env
      and repo = demo_repo and s = "start all_down"
      and img = "Some demo_image" and tag = "''v1''" and configDir = "''/etc/notary''"
      and r = "Some demo_ref" and rAuth = "Some (Authenticator ''registry'')"
      and nAuth = "Some (Authenticator ''notary'')"]
  have c: "snd (fst (ParseConfig spec_env ''/etc/notary'' (world (start all_down))))
      = Some (Err ConfigError ''/etc/notary'')"
    by (simp add: spec_defs demo_defs world_defs)
  have l: "snd (fst (listTargets spec_env (ref demo_repo) (notaryAuth demo_repo)
      (config demo_repo) (world (start all_down))))
      = Some (Err TrustUnavailable ''trust service not reached'')"
    by (simp add: spec_defs demo_defs world_defs)
  have p: "fst (pushImage spec_env (ref demo_repo) (Some demo_image) (registryAuth demo_repo)
      (world (start all_down)))
      = Some (Err RegistryPushError ''registry transport or authentication failure'')"
    by (simp add: spec_defs demo_defs world_defs)
  have v: "snd (fst (getTrustedTarget spec_env (ref demo_repo) (notaryAuth demo_repo)
      (config demo_repo) (world (start all_down))))
      = Some (Err TrustUnavailable ''trust service not reached'')"
    by (simp add: spec_defs demo_defs world_defs)
  have g: "fst (signImage spec_env (ref demo_repo) (Some demo_image) (notaryAuth demo_repo)
      (config demo_repo) (world (start all_down)))
      = Some (Err TrustUnavailable ''trust service not reached'')"
    by (simp add: spec_defs demo_defs world_defs)
  have k: "fst (revokeImage spec_env (ref demo_repo) ''v1'' (notaryAuth demo_repo)
      (config demo_repo) (world (start all_down)))
      = Some (Err TrustUnavailable ''trust service not reached'')"
    by (simp add: spec_defs demo_defs world_defs)
  have u: "fst (TrustPush spec_env demo_repo (Some demo_image) (start trust_down))
       = Some (Err TrustPublishError ''trust data not published'')"
    using collaborator_error_returned_and_logged_once [where env = spec_env
      and repo = demo_repo and s = "start trust_down" and img = "Some demo_image"
      and e = "Err TrustPublishError ''trust data not published''"]
    by (simp add: spec_defs demo_defs world_defs)
  show ?thesis
    using u t [where e = "Err ConfigError ''/etc/notary''"] c
      t [where e = "Err TrustUnavailable ''trust service not reached''"] l v g k
      t [where e = "Err RegistryPushError ''registry transport or authentication failure''"] p
    by simp
qed

section \<open>The two credentials\<close>



section \<open>Push, then verify\<close>

text \<open>
  Claim C2. Over the collaborators of the specification: if \<^verbatim>\<open>TrustPush\<close> of an image
  returns \<^verbatim>\<open>nil\<close>, a \<^verbatim>\<open>Verify\<close> that follows on the same adapter returns, without error,
  a Target whose digest is the digest of the image and whose length is its size.
\<close>

theorem TrustPush_then_Verify:
  assumes "TrustPush spec_env repo img s = (None, repo', s')"
  shows "\<exists>i t. img = Some i \<and> fst (Verify spec_env repo' s') = (Some t, None)
           \<and> target_digest t = img_digest i \<and> target_length t = img_size i"
proof -
  obtain err w1 where p: "spec_pushImage (ref repo) img (registryAuth repo) (world s) = (err, w1)"
    by (cases "spec_pushImage (ref repo) img (registryAuth repo) (world s)")
  obtain err2 w2 where
    q: "spec_pushTrustedReference (ref repo) img (notaryAuth repo) (config repo) w1 = (err2, w2)"
    by (cases "spec_pushTrustedReference (ref repo) img (notaryAuth repo) (config repo) w1")
  have e: "err = None"
  proof (cases err)
    case (Some x)
    with p assms show ?thesis by (simp add: TrustPush_fail)
  qed simp
  with p q assms have e2: "err2 = None" and r': "repo' = repo" and w': "world s' = w2"
    by (auto simp: TrustPush_ok)
  from q e2 obtain r i where r: "ref repo = Some r" and i: "img = Some i"
    and ses: "trust_session w1 (notaryAuth repo) (config repo)"
    and w2: "w2 = put_target r (target_of r i) w1"
    using pushTrustedReference_spec_ok by blast
  have "spec_getTrustedTarget (ref repo) (notaryAuth repo) (config repo) (world s')
          = ((Some (target_of r i), None), w2)"
    unfolding w' w2 r by (rule getTrustedTarget_put_target [OF ses])
  then have "fst (Verify spec_env repo' s') = (Some (target_of r i), None)"
    unfolding r' by (simp add: Verify_ok)
  with i show ?thesis by (simp add: target_of_def)
qed

text \<open>
  At the scenario of the specification: digest \<^verbatim>\<open>sha256:aaa\<close>, size 1024, tag \<^verbatim>\<open>v1\<close>.
\<close>

theorem TrustPush_then_Verify_witness:
  "fst (TrustPush spec_env demo_repo (Some demo_image) (start fresh_world)) = None
   \<and> fst (Verify spec_env demo_repo
           (snd (snd (TrustPush spec_env demo_repo (Some demo_image) (start fresh_world)))))
       = (Some \<lparr>target_name = ''v1'', target_digest = ''sha256:aaa'', target_length = 1024\<rparr>, None)"
proof -
  have p: "TrustPush spec_env demo_repo (Some demo_image) (start fresh_world)
      = (None, demo_repo, snd (snd (TrustPush spec_env demo_repo (Some demo_image) (start fresh_world))))"
    by (simp add: op_defs spec_defs demo_defs)
  from TrustPush_then_Verify [OF p] p show ?thesis
    by (auto simp: op_defs spec_defs demo_defs update_conv')
qed

section \<open>Listing without trust data\<close>

text \<open>
  Claim C4. Over the collaborators of the specification: when the trust service is reached
  and no trust metadata was ever published for the repository of the adapter's reference,
  \<^verbatim>\<open>ListTarget\<close> returns an error of kind NoTrustData; it never returns a success, an empty
  list or any other, for such a repository; and when the trust service is not reached the
  error is of the different kind TrustUnavailable.
\<close>

theorem ListTarget_without_trust_data:
  "(trust_session (world s) (notaryAuth repo) (config repo)
      \<and> repo_targets (world s) (ref repo) = None \<longrightarrow>
        (\<exists>e. fst (ListTarget spec_env repo s) = (None, Some e) \<and> kind_of e = NoTrustData))
   \<and> (\<not> trust_session (world s) (notaryAuth repo) (config repo) \<longrightarrow>
        (\<exists>e. fst (ListTarget spec_env repo s) = (None, Some e) \<and> kind_of e = TrustUnavailable))
   \<and> (repo_targets (world s) (ref repo) = None \<longrightarrow>
        snd (fst (ListTarget spec_env repo s)) \<noteq> None)"
proof (intro conjI impI)
  assume "trust_session (world s) (notaryAuth repo) (config repo)
      \<and> repo_targets (world s) (ref repo) = None"
  then have "spec_listTargets (ref repo) (notaryAuth repo) (config repo) (world s)
      = ((None, Some (Err NoTrustData ''no trust data'')), world s)"
    by (simp add: spec_listTargets_def)
  then show "\<exists>e. fst (ListTarget spec_env repo s) = (None, Some e) \<and> kind_of e = NoTrustData"
    by (simp add: ListTarget_fail)
next
  assume "\<not> trust_session (world s) (notaryAuth repo) (config repo)"
  then have "spec_listTargets (ref repo) (notaryAuth repo) (config repo) (world s)
      = ((None, Some (Err TrustUnavailable ''trust service not reached'')), world s)"
    by (simp add: spec_listTargets_def)
  then show "\<exists>e. fst (ListTarget spec_env repo s) = (None, Some e) \<and> kind_of e = TrustUnavailable"
    by (simp add: ListTarget_fail)
next
  assume "repo_targets (world s) (ref repo) = None"
  then obtain e where "spec_listTargets (ref repo) (notaryAuth repo) (config repo) (world s)
      = ((None, Some e), world s)"
    by (cases "trust_session (world s) (notaryAuth repo) (config repo)")
       (simp_all add: spec_listTargets_def)
  then show "snd (fst (ListTarget spec_env repo s)) \<noteq> None"
    by (simp add: ListTarget_fail)
qed

text \<open>
  At concrete inputs: the fresh world of the scenario, and the same with the trust service
  down.
\<close>

theorem ListTarget_without_trust_data_witness:
  "fst (ListTarget spec_env demo_repo (start fresh_world))
     = (None, Some (Err NoTrustData ''no trust data''))
   \<and> fst (ListTarget spec_env demo_repo (start trust_down))
     = (None, Some (Err TrustUnavailable ''trust service not reached''))"
proof -
  have a: "trust_session (world (start fresh_world)) (notaryAuth demo_repo) (config demo_repo)
      \<and> repo_targets (world (start fresh_world)) (ref demo_repo) = None"
    by (simp add: trust_session_def config_at_def repo_targets_def demo_defs)
  have b: "\<not> trust_session (world (start trust_down)) (notaryAuth demo_repo) (config demo_repo)"
    by (simp add: trust_session_def demo_defs trust_down_def)
  from ListTarget_without_trust_data [of "start fresh_world" demo_repo] a
    ListTarget_without_trust_data [of "start trust_down" demo_repo] b
  show ?thesis
    by (auto simp: ListTarget_def emit_def Let_def spec_defs demo_defs trust_down_def)
qed

section \<open>Revoke, then verify\<close>



section \<open>Signing twice\<close>

text \<open>
  Claim C8. Over the collaborators of the specification: \<^verbatim>\<open>SignImage\<close> of the same image
  a second time returns what the first call returned and leaves the world as the first call
  left it, so \<^verbatim>\<open>Verify\<close> gives the same after the second call as after the first; and
  when the first call succeeded, the Target bound to the tag after the second call has
  the digest and the size of the image.
\<close>

theorem SignImage_idempotent:
  assumes "SignImage spec_env repo img s = (err1, repo1, s1)"
    and "SignImage spec_env repo1 img s1 = (err2, repo2, s2)"
  shows "err2 = err1 \<and> world s2 = world s1
     \<and> fst (Verify spec_env repo2 s2) = fst (Verify spec_env repo1 s1)
     \<and> (err1 = None \<longrightarrow>
          (\<exists>i t. img = Some i \<and> fst (Verify spec_env repo2 s2) = (Some t, None)
             \<and> target_digest t = img_digest i \<and> target_length t = img_size i))"
proof -
  obtain e w1 where
    g: "spec_signImage (ref repo) img (notaryAuth repo) (config repo) (world s) = (e, w1)"
    by (cases "spec_signImage (ref repo) img (notaryAuth repo) (config repo) (world s)")
  have first: "err1 = e \<and> repo1 = repo \<and> world s1 = w1"
    using g assms(1) by (cases e) (auto simp: SignImage_fail SignImage_ok)
  have again: "spec_signImage (ref repo) img (notaryAuth repo) (config repo) w1 = (e, w1)"
  proof (cases e)
    case None
    with g obtain r i where "ref repo = Some r" "img = Some i"
      "trust_session (world s) (notaryAuth repo) (config repo)"
      "can_sign (world s) (config repo)" "w1 = put_target r (target_of r i) (world s)"
      using signImage_spec_ok by blast
    with None show ?thesis by (simp add: spec_signImage_def)
  next
    case (Some x)
    with g have "w1 = world s" by (simp add: signImage_spec_fail)
    with g show ?thesis by simp
  qed
  have second: "err2 = e \<and> repo2 = repo \<and> world s2 = w1"
    using again assms(2) first by (cases e) (auto simp: SignImage_fail SignImage_ok)
  have same: "fst (Verify spec_env repo2 s2) = fst (Verify spec_env repo1 s1)"
    using first second by (simp add: Verify_def Let_def split: prod.splits option.splits)
  have bound: "\<exists>i t. img = Some i \<and> fst (Verify spec_env repo2 s2) = (Some t, None)
             \<and> target_digest t = img_digest i \<and> target_length t = img_size i"
    if "err1 = None"
  proof -
    from that first have "e = None" by simp
    with g obtain r i where r: "ref repo = Some r" and i: "img = Some i"
      and ses: "trust_session (world s) (notaryAuth repo) (config repo)"
      and w1: "w1 = put_target r (target_of r i) (world s)"
      using signImage_spec_ok by blast
    have "spec_getTrustedTarget (ref repo) (notaryAuth repo) (config repo) (world s2)
            = ((Some (target_of r i), None), w1)"
      using second getTrustedTarget_put_target [OF ses] by (simp add: w1 r)
    with second have "fst (Verify spec_env repo2 s2) = (Some (target_of r i), None)"
      by (simp add: Verify_ok)
    with i show ?thesis by (simp add: target_of_def)
  qed
  from first second same bound show ?thesis by simp
qed

text \<open>
  At the scenario of the specification: both calls succeed and \<^verbatim>\<open>v1\<close> stays bound to
  digest \<^verbatim>\<open>sha256:aaa\<close>, size 1024.
\<close>

theorem SignImage_idempotent_witness:
  "fst (SignImage spec_env demo_repo (Some demo_image) (start fresh_world)) = None
   \<and> fst (SignImage spec_env demo_repo (Some demo_image)
           (snd (snd (SignImage spec_env demo_repo (Some demo_image) (start fresh_world))))) = None
   \<and> world (snd (snd (SignImage spec_env demo_repo (Some demo_image)
           (snd (snd (SignImage spec_env demo_repo (Some demo_image) (start fresh_world)))))))
       = world (snd (snd (SignImage spec_env demo_repo (Some demo_image) (start fresh_world))))
   \<and> fst (Verify spec_env demo_repo (snd (snd (SignImage spec_env demo_repo (Some demo_image)
           (snd (snd (SignImage spec_env demo_repo (Some demo_image) (start fresh_world)))))))) 
       = (Some \<lparr>target_name = ''v1'', target_digest = ''sha256:aaa'', target_length = 1024\<rparr>, None)"
proof -
  let ?s1 = "snd (snd (SignImage spec_env demo_repo (Some demo_image) (start fresh_world)))"
  let ?s2 = "snd (snd (SignImage spec_env demo_repo (Some demo_image) ?s1))"
  have a: "SignImage spec_env demo_repo (Some demo_image) (start fresh_world)
      = (None, demo_repo, ?s1)"
    by (simp add: op_defs spec_defs demo_defs)
  have b: "SignImage spec_env demo_repo (Some demo_image) ?s1
      = (fst (SignImage spec_env demo_repo (Some demo_image) ?s1), demo_repo, ?s2)"
    by (simp add: op_defs split: prod.splits option.splits)
  from SignImage_idempotent [OF a b] show ?thesis
    by (auto simp: op_defs spec_defs demo_defs update_conv')
qed

end
